theory Spec2Isabelle
  imports Complex_Main
begin

section \<open>JavaScript values and the utility functions the View relies on\<close>

text \<open>
  Plain data (rows of the data array, option objects, theme objects) is a tree of
  JavaScript values.  A function value is opaque and carried by its name only; numbers
  are read as real numbers, a date as its time in milliseconds.
\<close>

datatype jv =
    JUndefined
  | JNull
  | JBool bool
  | JNum real
  | JStr string
  | JDate int
  | JFn string
  | JArr "jv list"
  | JObj "(string \<times> jv) list"

text \<open>Truthiness, as \<open>if (v)\<close>, \<open>v ? a : b\<close>, \<open>!v\<close> and \<open>a && b\<close> read a value.\<close>

fun truthy :: "jv \<Rightarrow> bool" where
  "truthy JUndefined = False"
| "truthy JNull = False"
| "truthy (JBool b) = b"
| "truthy (JNum x) = (x \<noteq> 0)"
| "truthy (JStr s) = (s \<noteq> [])"
| "truthy (JDate t) = True"
| "truthy (JFn f) = True"
| "truthy (JArr xs) = True"
| "truthy (JObj kvs) = True"

text \<open>
  A value read as a number in arithmetic: a number is itself, a date its time.  (No other
  value is read this way in this development.)
\<close>

fun to_number :: "jv \<Rightarrow> real" where
  "to_number (JNum x) = x"
| "to_number (JDate t) = real_of_int t"
| "to_number v = 0"

text \<open>
  Property read \<open>obj[key]\<close>: an own property of an object, \<open>undefined\<close> where the
  key is absent or where the value is not a plain object (none of the keys read in this
  development is a property of a function, an array or a primitive).
\<close>

fun member :: "jv \<Rightarrow> string \<Rightarrow> jv" where
  "member (JObj kvs) k = (case map_of kvs k of None \<Rightarrow> JUndefined | Some v \<Rightarrow> v)"
| "member v k = JUndefined"

text \<open>
  The utility library's \<open>get(obj, path, defaultValue)\<close>: it walks the path while the
  current value is truthy, and gives the default when the walk stops early or ends on
  \<open>undefined\<close>.
\<close>

fun jget :: "jv \<Rightarrow> string list \<Rightarrow> jv \<Rightarrow> jv" where
  "jget obj [] d = (if obj = JUndefined then d else obj)"
| "jget obj (k # ks) d = (if truthy obj then jget (member obj k) ks d else d)"

text \<open>Object spread \<open>{ ...a, ...b }\<close>: the keys of \<open>b\<close> win; a non-object spreads nothing.\<close>

fun put_key :: "string \<Rightarrow> jv \<Rightarrow> (string \<times> jv) list \<Rightarrow> (string \<times> jv) list" where
  "put_key k v [] = [(k, v)]"
| "put_key k v ((k', v') # kvs) = (if k = k' then (k, v) # kvs else (k', v') # put_key k v kvs)"

fun own_props :: "jv \<Rightarrow> (string \<times> jv) list" where
  "own_props (JObj kvs) = kvs"
| "own_props v = []"

definition spread :: "jv \<Rightarrow> jv \<Rightarrow> jv" where
  "spread a b = JObj (foldl (\<lambda>acc (k, v). put_key k v acc) (own_props a) (own_props b))"

text \<open>The utility library's \<open>uniq\<close>: the first occurrence of every element, in order.\<close>

fun uniq_acc :: "'a list \<Rightarrow> 'a list \<Rightarrow> 'a list" where
  "uniq_acc acc [] = acc"
| "uniq_acc acc (x # xs) = (if x \<in> set acc then uniq_acc acc xs else uniq_acc (acc @ [x]) xs)"

definition uniq :: "'a list \<Rightarrow> 'a list" where
  "uniq xs = uniq_acc [] xs"

section \<open>The data model of a View\<close>

record point =
  px :: real
  py :: real

text \<open>
  A coordinate instance of the coordinate library, with the attributes and the one
  method (\<open>invert\<close>) that the View and the coordinate utilities read.
\<close>

record coordinate =
  ctype :: string
  cstart :: point
  cend :: point
  isPolar :: bool
  isTransposed :: bool
  startAngle :: real
  endAngle :: real
  cinvert :: "point \<Rightarrow> point"

text \<open>A filter condition \<open>(value, datum) => boolean\<close>; \<open>options.filters\<close> maps a field to one.\<close>

type_synonym filter_condition = "jv \<Rightarrow> jv \<Rightarrow> bool"

record options =
  o_data :: "jv list"
  o_animate :: bool
  o_filters :: "(string \<times> filter_condition) list option"
  o_scales :: jv

text \<open>A facet instance: the type and configuration it was built from, and whether it is destroyed.\<close>

record facet =
  ftype :: string
  fcfg :: jv
  fdestroyed :: bool

text \<open>
  A geometry, as the View reads and writes it: the fields it needs scales for, its
  grouping fields, the object \<open>geometry.scales\<close> that the View assigns (for each field the
  scale instance, or \<open>undefined\<close>), and the scale instances \<open>getXScale()\<close> and
  \<open>getYScale()\<close> return.  A scale instance is a reference into the store of scale
  instances; \<open>None\<close> is a missing scale.
\<close>

record geometry =
  scaleFields :: "string list"
  groupFields :: "string list"
  g_scales :: "(string \<times> nat option) list"
  g_xScale :: "nat option"
  g_yScale :: "nat option"

text \<open>
  A bound of a range: a finite number, or one of the infinities that a division by a
  count of zero yields in JavaScript.
\<close>

datatype jsnum = Fin real | PosInf | NegInf

text \<open>
  A scale instance, as the View reads and writes it: the field, the values of a
  discrete domain (\<open>undefined\<close> for a continuous one), the two classification flags, the
  range, and the definition it was last built from.
\<close>

record scale =
  s_field :: string
  s_values :: "jv list option"
  s_isCategory :: bool
  s_isIdentity :: bool
  s_range :: "jsnum list"
  s_def :: jv

text \<open>
  The scale pool of a view: the registered keys, each bound to a scale instance, and the
  store of the instances (an instance is identified by its address, so that two keys or
  two geometries can hold the same instance).
\<close>

record pool =
  p_entries :: "string \<rightharpoonup> nat"
  p_insts :: "nat \<rightharpoonup> scale"
  p_next :: nat

definition empty_pool :: pool where
  "empty_pool = \<lparr>p_entries = Map.empty, p_insts = Map.empty, p_next = 0\<rparr>"

record view =
  vid :: string
  voptions :: options
  filteredData :: "jv list option"
  geometries :: "geometry list"
  scalePool :: pool
  coordinateInstance :: "coordinate option"
  facetInstance :: "facet option"
  isPreMouseInPlot :: bool
  themeObject :: jv

text \<open>
  The state of a view when its constructor returns, for the given id and the options
  and theme passed in: \<open>options\<close> starts as \<open>{ data: [], animate: true }\<close> and takes the
  passed options over it (\<open>passed\<close> is the passed options as the change they make to
  these); no coordinate instance, facet or filtered data exists yet; the pointer is not
  in the plot; the pool is empty.  (The constructor also creates the controllers and the
  drawing groups, which this model does not hold.)
\<close>

definition default_options :: options where
  "default_options = \<lparr>o_data = [], o_animate = True, o_filters = None, o_scales = JUndefined\<rparr>"

definition View_new :: "string \<Rightarrow> (options \<Rightarrow> options) \<Rightarrow> jv \<Rightarrow> view" where
  "View_new ident passed theme =
     \<lparr>vid = ident, voptions = passed default_options, filteredData = None, geometries = [],
      scalePool = empty_pool, coordinateInstance = None, facetInstance = None,
      isPreMouseInPlot = False, themeObject = theme\<rparr>"

text \<open>\<open>View.data\<close> and \<open>View.filter\<close>: the two setters the filtering reads.\<close>

definition view_data :: "view \<Rightarrow> jv list \<Rightarrow> view" where
  "view_data v dat = v\<lparr>voptions := (voptions v)\<lparr>o_data := dat\<rparr>\<rparr>"

fun put_filter :: "string \<Rightarrow> filter_condition \<Rightarrow> (string \<times> filter_condition) list
    \<Rightarrow> (string \<times> filter_condition) list" where
  "put_filter k c [] = [(k, c)]"
| "put_filter k c ((k', c') # kvs) =
     (if k = k' then (k, c) # kvs else (k', c') # put_filter k c kvs)"

definition view_filter :: "view \<Rightarrow> string \<Rightarrow> filter_condition option \<Rightarrow> view" where
  "view_filter v field condition =
     (case condition of
        Some c \<Rightarrow>
          v\<lparr>voptions := (voptions v)\<lparr>o_filters :=
               Some (put_filter field c (case o_filters (voptions v) of None \<Rightarrow> [] | Some kvs \<Rightarrow> kvs))\<rparr>\<rparr>
      | None \<Rightarrow>
          (case o_filters (voptions v) of
             None \<Rightarrow> v
           | Some kvs \<Rightarrow>
               v\<lparr>voptions := (voptions v)\<lparr>o_filters := Some (filter (\<lambda>kc. fst kc \<noteq> field) kvs)\<rparr>\<rparr>))"

section \<open>Filtering the data\<close>

text \<open>
  \<open>size(filters)\<close> of the utility library: 0 for \<open>undefined\<close>, the number of keys of an
  object otherwise.
\<close>

definition size_filters :: "(string \<times> filter_condition) list option \<Rightarrow> nat" where
  "size_filters fs = (case fs of None \<Rightarrow> 0 | Some kvs \<Rightarrow> length (remdups (map fst kvs)))"

text \<open>
  \<open>View.filterData\<close>: without filters the data is returned as it is; otherwise a row is
  kept when \<open>every\<close> key of \<open>filters\<close> has its condition accept \<open>(datum[field], datum)\<close>.
  The conditions are total predicates, so a key always has one (\<open>filters[field]\<close>).
\<close>

definition passes :: "(string \<times> filter_condition) list \<Rightarrow> jv \<Rightarrow> bool" where
  "passes kvs datum =
     list_all (\<lambda>field. case map_of kvs field of
                         None \<Rightarrow> False
                       | Some condition \<Rightarrow> condition (member datum field) datum)
              (map fst kvs)"

definition filterData :: "view \<Rightarrow> jv list \<Rightarrow> jv list" where
  "filterData v dat =
     (let filters = o_filters (voptions v) in
      if size_filters filters = 0 then dat
      else filter (passes (case filters of None \<Rightarrow> [] | Some kvs \<Rightarrow> kvs)) dat)"

lemma size_filters_zero:
  "size_filters fs = 0 \<longleftrightarrow> fs = None \<or> fs = Some []"
  by (cases fs) (auto simp: size_filters_def)

lemma passes_iff:
  "passes kvs datum \<longleftrightarrow>
     (\<forall>field condition. map_of kvs field = Some condition \<longrightarrow> condition (member datum field) datum)"
proof
  assume p: "passes kvs datum"
  show "\<forall>field condition. map_of kvs field = Some condition \<longrightarrow> condition (member datum field) datum"
  proof (intro allI impI)
    fix field condition
    assume m: "map_of kvs field = Some condition"
    then have "field \<in> set (map fst kvs)"
      by (metis domI dom_map_of_conv_image_fst set_map)
    with p m show "condition (member datum field) datum"
      by (auto simp: passes_def list_all_iff)
  qed
next
  assume a: "\<forall>field condition. map_of kvs field = Some condition \<longrightarrow> condition (member datum field) datum"
  show "passes kvs datum"
    unfolding passes_def list_all_iff
  proof
    fix field
    assume "field \<in> set (map fst kvs)"
    then obtain condition where "map_of kvs field = Some condition"
      by (metis domD dom_map_of_conv_image_fst set_map)
    with a show "case map_of kvs field of None \<Rightarrow> False
                 | Some condition \<Rightarrow> condition (member datum field) datum"
      by auto
  qed
qed

text \<open>
  C1. For every data array and every set of per-field filter predicates configured on the
  view, \<open>filterData\<close> returns exactly the rows of the input, in input order, for which
  every configured predicate, applied to the row's value for its field and to the row,
  holds; the result is therefore no longer than the input; and without configured
  filters the input is returned unchanged.
\<close>

theorem filterData_exact:
  "filterData v dat =
     filter (\<lambda>datum. \<forall>field condition.
                map_of (case o_filters (voptions v) of None \<Rightarrow> [] | Some kvs \<Rightarrow> kvs) field
                  = Some condition
                \<longrightarrow> condition (member datum field) datum) dat
   \<and> length (filterData v dat) \<le> length dat
   \<and> set (filterData v dat) \<subseteq> set dat
   \<and> (size_filters (o_filters (voptions v)) = 0 \<longrightarrow> filterData v dat = dat)"
proof -
  have eq: "filterData v dat =
     filter (\<lambda>datum. \<forall>field condition.
                map_of (case o_filters (voptions v) of None \<Rightarrow> [] | Some kvs \<Rightarrow> kvs) field
                  = Some condition
                \<longrightarrow> condition (member datum field) datum) dat"
  proof (cases "o_filters (voptions v)")
    case None
    then show ?thesis by (simp add: filterData_def size_filters_def)
  next
    case (Some kvs)
    show ?thesis
    proof (cases "kvs = []")
      case True
      with Some show ?thesis by (simp add: filterData_def size_filters_def)
    next
      case False
      with Some have "size_filters (o_filters (voptions v)) \<noteq> 0"
        by (simp add: size_filters_zero)
      moreover have "passes kvs = (\<lambda>datum. \<forall>field condition. map_of kvs field = Some condition
                \<longrightarrow> condition (member datum field) datum)"
        by (rule ext) (rule passes_iff)
      ultimately show ?thesis
        using Some by (simp add: filterData_def)
    qed
  qed
  have len: "length (filterData v dat) \<le> length dat"
    by (simp add: filterData_def Let_def)
  have sub: "set (filterData v dat) \<subseteq> set dat"
    by (auto simp: filterData_def Let_def)
  have none: "size_filters (o_filters (voptions v)) = 0 \<longrightarrow> filterData v dat = dat"
    by (simp add: filterData_def)
  from eq len sub none show ?thesis by blast
qed

text \<open>
  The theorem at the data of the filter test (four years), with the filter
  \<open>year !== '1991'\<close> and a second filter \<open>value > 10\<close> on another field.
\<close>

definition year_rows :: "jv list" where
  "year_rows =
     [JObj [(''year'', JStr ''1991''), (''value'', JNum 13)],
      JObj [(''year'', JStr ''1992''), (''value'', JNum 34)],
      JObj [(''year'', JStr ''1993''), (''value'', JNum 5)],
      JObj [(''year'', JStr ''1994''), (''value'', JNum 34)]]"

definition not_1991 :: filter_condition where
  "not_1991 val datum = (val \<noteq> JStr ''1991'')"

definition above_ten :: filter_condition where
  "above_ten val datum = (case val of JNum x \<Rightarrow> x > 10 | _ \<Rightarrow> False)"

definition filtered_view :: view where
  "filtered_view =
     view_filter (view_filter (View_new ''view1'' id (JObj [])) ''year'' (Some not_1991))
       ''value'' (Some above_ten)"

lemma filtered_view_filters:
  "o_filters (voptions filtered_view) = Some [(''year'', not_1991), (''value'', above_ten)]"
  by (simp add: filtered_view_def view_filter_def View_new_def default_options_def)

lemma filtered_view_pred:
  "(\<forall>field condition.
       map_of [(''year'', not_1991), (''value'', above_ten)] field = Some condition
         \<longrightarrow> condition (member datum field) datum)
   \<longleftrightarrow> not_1991 (member datum ''year'') datum \<and> above_ten (member datum ''value'') datum"
  by (auto split: if_splits)

theorem filterData_exact_witness:
  "filterData filtered_view year_rows =
     [JObj [(''year'', JStr ''1992''), (''value'', JNum 34)],
      JObj [(''year'', JStr ''1994''), (''value'', JNum 34)]]
   \<and> length (filterData filtered_view year_rows) \<le> length year_rows
   \<and> filterData (View_new ''view1'' id (JObj [])) year_rows = year_rows"
proof -
  note t = filterData_exact [of filtered_view year_rows]
  have P: "(\<lambda>datum. \<forall>field condition.
             map_of (case o_filters (voptions filtered_view) of None \<Rightarrow> [] | Some kvs \<Rightarrow> kvs) field
               = Some condition
               \<longrightarrow> condition (member datum field) datum)
         = (\<lambda>datum. not_1991 (member datum ''year'') datum \<and> above_ten (member datum ''value'') datum)"
    unfolding filtered_view_filters option.case by (rule ext) (rule filtered_view_pred)
  from t have "filterData filtered_view year_rows =
      filter (\<lambda>datum. not_1991 (member datum ''year'') datum \<and> above_ten (member datum ''value'') datum)
        year_rows"
    unfolding P by blast
  then have a: "filterData filtered_view year_rows =
     [JObj [(''year'', JStr ''1992''), (''value'', JNum 34)],
      JObj [(''year'', JStr ''1994''), (''value'', JNum 34)]]"
    by (simp add: year_rows_def not_1991_def above_ten_def)
  from t have b: "length (filterData filtered_view year_rows) \<le> length year_rows" by blast
  have z: "size_filters (o_filters (voptions (View_new ''view1'' id (JObj [])))) = 0"
    by (simp add: View_new_def default_options_def size_filters_def)
  with filterData_exact [of "View_new ''view1'' id (JObj [])" year_rows]
  have c: "filterData (View_new ''view1'' id (JObj [])) year_rows = year_rows" by blast
  from a b c show ?thesis by blast
qed

section \<open>Coordinate queries\<close>

text \<open>
  Modelled from the spec: \<open>isBetween\<close> of the helper module, which is not among the
  sources.  The spec describes its two uses as an axis-aligned bounds check against the
  start and end corners and as a check that a unit coordinate lies in \<open>[0,1]\<close>: the value
  lies between the two bounds, whichever of them is the smaller, bounds included.
\<close>

definition isBetween :: "real \<Rightarrow> real \<Rightarrow> real \<Rightarrow> bool" where
  "isBetween val a b = (min a b \<le> val \<and> val \<le> max a b)"

text \<open>
  \<open>isFullCircle\<close>: only a polar coordinate can be one, and it is when its angular span
  is exactly \<open>2\<pi>\<close>.
\<close>

definition isFullCircle :: "coordinate \<Rightarrow> bool" where
  "isFullCircle c = (if isPolar c then endAngle c - startAngle c = pi * 2 else False)"

text \<open>
  \<open>isPointInCoordinate\<close>: the result starts as \<open>false\<close> and is only computed when a
  coordinate is given.
\<close>

definition isPointInCoordinate :: "coordinate option \<Rightarrow> point \<Rightarrow> bool" where
  "isPointInCoordinate coord p =
     (case coord of
        None \<Rightarrow> False
      | Some c \<Rightarrow>
          if ctype c = ''theta''
          then isBetween (px p) (px (cstart c)) (px (cend c))
             \<and> isBetween (py p) (py (cstart c)) (py (cend c))
          else (let invertPoint = cinvert c p
                in isBetween (px invertPoint) 0 1 \<and> isBetween (py invertPoint) 0 1))"

definition getCoordinate :: "view \<Rightarrow> coordinate option" where
  "getCoordinate v = coordinateInstance v"

definition isPointInPlot :: "view \<Rightarrow> point \<Rightarrow> bool" where
  "isPointInPlot v p = isPointInCoordinate (getCoordinate v) p"

text \<open>
  A rectangular coordinate of the coordinate library over the pixel box from \<open>start\<close> to
  \<open>end\<close>: its \<open>invert\<close> takes a pixel point to the unit square, linearly on each axis.
\<close>

definition rect_invert :: "point \<Rightarrow> point \<Rightarrow> point \<Rightarrow> point" where
  "rect_invert s e p =
     \<lparr>px = (px p - px s) / (px e - px s), py = (py p - py s) / (py e - py s)\<rparr>"

definition rect_coordinate :: "point \<Rightarrow> point \<Rightarrow> coordinate" where
  "rect_coordinate s e =
     \<lparr>ctype = ''rect'', cstart = s, cend = e, isPolar = False, isTransposed = False,
      startAngle = 0, endAngle = 0, cinvert = rect_invert s e\<rparr>"

text \<open>
  \<open>View.clear\<close>: the pool is emptied (\<open>ScalePool.clear\<close> drops all entries), the filtered
  data becomes the empty array, the coordinate instance \<open>undefined\<close>, and the geometries
  are cleared and dropped.  (Clearing the controllers and the child views, and the two
  lifecycle notifications, touch nothing this model holds.)
\<close>

definition pool_clear :: "pool \<Rightarrow> pool" where
  "pool_clear p = p\<lparr>p_entries := Map.empty\<rparr>"

definition clear :: "view \<Rightarrow> view" where
  "clear v = v\<lparr>scalePool := pool_clear (scalePool v), filteredData := Some [],
               coordinateInstance := None, geometries := []\<rparr>"

text \<open>
  C6. For every coordinate instance and point: for a coordinate of type \<open>theta\<close> the
  result is true exactly when the point's x lies between the x of the start and end
  corners and its y between their y; for every other type exactly when both coordinates
  of the inverted point lie in \<open>[0,1]\<close>.  For the rectangular coordinate over the pixel box
  (0,0)-(100,100), the point (150,150) is outside and the point (50,50) inside, whether
  the box is given by its top-left and bottom-right corners or, as the View gives it, by
  its bottom-left and top-right corners.
\<close>

theorem isPointInCoordinate_cases:
  "(isPointInCoordinate (Some c) p \<longleftrightarrow>
      (if ctype c = ''theta''
       then min (px (cstart c)) (px (cend c)) \<le> px p \<and> px p \<le> max (px (cstart c)) (px (cend c))
          \<and> min (py (cstart c)) (py (cend c)) \<le> py p \<and> py p \<le> max (py (cstart c)) (py (cend c))
       else 0 \<le> px (cinvert c p) \<and> px (cinvert c p) \<le> 1
          \<and> 0 \<le> py (cinvert c p) \<and> py (cinvert c p) \<le> 1))
   \<and> isPointInCoordinate (Some (rect_coordinate \<lparr>px = 0, py = 0\<rparr> \<lparr>px = 100, py = 100\<rparr>))
         \<lparr>px = 150, py = 150\<rparr> = False
   \<and> isPointInCoordinate (Some (rect_coordinate \<lparr>px = 0, py = 0\<rparr> \<lparr>px = 100, py = 100\<rparr>))
         \<lparr>px = 50, py = 50\<rparr> = True
   \<and> isPointInCoordinate (Some (rect_coordinate \<lparr>px = 0, py = 100\<rparr> \<lparr>px = 100, py = 0\<rparr>))
         \<lparr>px = 150, py = 150\<rparr> = False
   \<and> isPointInCoordinate (Some (rect_coordinate \<lparr>px = 0, py = 100\<rparr> \<lparr>px = 100, py = 0\<rparr>))
         \<lparr>px = 50, py = 50\<rparr> = True"
proof -
  have gen: "isPointInCoordinate (Some c) p \<longleftrightarrow>
      (if ctype c = ''theta''
       then min (px (cstart c)) (px (cend c)) \<le> px p \<and> px p \<le> max (px (cstart c)) (px (cend c))
          \<and> min (py (cstart c)) (py (cend c)) \<le> py p \<and> py p \<le> max (py (cstart c)) (py (cend c))
       else 0 \<le> px (cinvert c p) \<and> px (cinvert c p) \<le> 1
          \<and> 0 \<le> py (cinvert c p) \<and> py (cinvert c p) \<le> 1)"
    by (simp add: isPointInCoordinate_def isBetween_def Let_def)
  have out: "isPointInCoordinate (Some (rect_coordinate \<lparr>px = 0, py = 0\<rparr> \<lparr>px = 100, py = 100\<rparr>))
         \<lparr>px = 150, py = 150\<rparr> = False"
    by (simp add: isPointInCoordinate_def isBetween_def rect_coordinate_def rect_invert_def)
  have inside: "isPointInCoordinate (Some (rect_coordinate \<lparr>px = 0, py = 0\<rparr> \<lparr>px = 100, py = 100\<rparr>))
         \<lparr>px = 50, py = 50\<rparr> = True"
    by (simp add: isPointInCoordinate_def isBetween_def rect_coordinate_def rect_invert_def)
  have out': "isPointInCoordinate (Some (rect_coordinate \<lparr>px = 0, py = 100\<rparr> \<lparr>px = 100, py = 0\<rparr>))
         \<lparr>px = 150, py = 150\<rparr> = False"
    by (simp add: isPointInCoordinate_def isBetween_def rect_coordinate_def rect_invert_def)
  have inside': "isPointInCoordinate (Some (rect_coordinate \<lparr>px = 0, py = 100\<rparr> \<lparr>px = 100, py = 0\<rparr>))
         \<lparr>px = 50, py = 50\<rparr> = True"
    by (simp add: isPointInCoordinate_def isBetween_def rect_coordinate_def rect_invert_def)
  from gen out inside out' inside' show ?thesis by blast
qed

text \<open>
  C10. \<open>isPointInCoordinate\<close> is total in its coordinate argument: without a coordinate
  (\<open>null\<close> or \<open>undefined\<close>) it answers false for every point.  Hence \<open>isPointInPlot\<close>
  answers false on a view that has not been rendered (the constructor leaves the
  coordinate instance unset), and on any view after \<open>clear()\<close>.
\<close>

theorem isPointInPlot_without_coordinate:
  "isPointInCoordinate None p = False
   \<and> isPointInPlot (View_new ident passed theme) p = False
   \<and> coordinateInstance (clear v) = None
   \<and> isPointInPlot (clear v) p = False"
  by (simp add: isPointInCoordinate_def isPointInPlot_def getCoordinate_def View_new_def clear_def)

section \<open>Plot events\<close>

text \<open>
  An event of the drawing engine as the View reads it (its name, the pointer position,
  and the origin datum of the shape it came from, if any), and the View-level event made
  from it, whose \<open>type\<close> the View rewrites before each emission.
\<close>

record gevent =
  g_name :: string
  g_x :: real
  g_y :: real
  g_origin :: "jv option"

record event =
  e_type :: string
  e_x :: real
  e_y :: real
  e_data :: jv

definition createViewEvent :: "gevent \<Rightarrow> event" where
  "createViewEvent evt =
     \<lparr>e_type = g_name evt, e_x = g_x evt, e_y = g_y evt,
      e_data = (case g_origin evt of None \<Rightarrow> JNull | Some d \<Rightarrow> d)\<rparr>"

definition ALL_EVENTS :: "string list" where
  "ALL_EVENTS =
     [''mousedown'', ''mouseup'', ''mousemove'', ''mouseleave'', ''mousewheel'',
      ''touchstart'', ''touchmove'', ''touchend'', ''touchcancel'',
      ''click'', ''dblclick'', ''contextmenu'']"

text \<open>
  Modelled from the spec: the two members of \<open>PLOT_EVENTS\<close> (the constants module is not
  among the sources) that name the transition events, \<open>plot:mouseenter\<close> and
  \<open>plot:mouseleave\<close>.
\<close>

definition PLOT_MOUSE_ENTER :: string where
  "PLOT_MOUSE_ENTER = ''plot:mouseenter''"

definition PLOT_MOUSE_LEAVE :: string where
  "PLOT_MOUSE_LEAVE = ''plot:mouseleave''"

text \<open>
  \<open>View.doPlotEvent\<close>.  The result is the view (its sticky flag updated), the event (its
  type as last rewritten) and the emissions in order, each with the event as it was when
  emitted.  \<open>type\<close> is read once, before any rewriting.
\<close>

definition doPlotEvent :: "view \<Rightarrow> event \<Rightarrow> view \<times> event \<times> (string \<times> event) list" where
  "doPlotEvent v e =
     (let type = e_type e;
          point = \<lparr>px = e_x e, py = e_y e\<rparr>
      in if type \<in> set ALL_EVENTS then
           (let currentInPlot = isPointInPlot v point;
                plotTYPE = ''plot:'' @ type;
                e1 = (if currentInPlot then e\<lparr>e_type := plotTYPE\<rparr> else e);
                log1 = (if currentInPlot then [(plotTYPE, e1)] else []);
                v1 = (if currentInPlot \<and> type = ''mouseleave''
                      then v\<lparr>isPreMouseInPlot := False\<rparr> else v)
            in if type = ''mousemove'' then
                 (if isPreMouseInPlot v1 \<and> \<not> currentInPlot then
                    (let e2 = e1\<lparr>e_type := PLOT_MOUSE_LEAVE\<rparr>
                     in (v1\<lparr>isPreMouseInPlot := currentInPlot\<rparr>, e2, log1 @ [(PLOT_MOUSE_LEAVE, e2)]))
                  else if \<not> isPreMouseInPlot v1 \<and> currentInPlot then
                    (let e2 = e1\<lparr>e_type := PLOT_MOUSE_ENTER\<rparr>
                     in (v1\<lparr>isPreMouseInPlot := currentInPlot\<rparr>, e2, log1 @ [(PLOT_MOUSE_ENTER, e2)]))
                  else (v1\<lparr>isPreMouseInPlot := currentInPlot\<rparr>, e1, log1))
               else if type = ''mouseleave'' then
                 (if isPreMouseInPlot v1 then
                    (let e2 = e1\<lparr>e_type := PLOT_MOUSE_LEAVE\<rparr>
                     in (v1\<lparr>isPreMouseInPlot := False\<rparr>, e2, log1 @ [(PLOT_MOUSE_LEAVE, e2)]))
                  else (v1, e1, log1))
               else (v1, e1, log1))
         else (v, e, []))"

text \<open>
  \<open>View.onCanvasEvent\<close>: an event whose name holds no colon is turned into a View event,
  passed through \<open>doPlotEvent\<close>, and then emitted under its own name.
\<close>

definition onCanvasEvent :: "view \<Rightarrow> gevent \<Rightarrow> view \<times> (string \<times> event) list" where
  "onCanvasEvent v evt =
     (let name = g_name evt
      in if CHR '':'' \<notin> set name then
           (let e = createViewEvent evt;
                (v', e', log) = doPlotEvent v e
            in (v', log @ [(name, e')]))
         else (v, []))"

text \<open>The names emitted for a canvas event, and the sticky flag afterwards.\<close>

definition emitted_names :: "view \<Rightarrow> gevent \<Rightarrow> string list" where
  "emitted_names v evt = map fst (snd (onCanvasEvent v evt))"

definition flag_after :: "view \<Rightarrow> gevent \<Rightarrow> bool" where
  "flag_after v evt = isPreMouseInPlot (fst (onCanvasEvent v evt))"

lemma emitted_names_eq:
  assumes "CHR '':'' \<notin> set (g_name evt)"
  shows "emitted_names v evt =
     (let n = g_name evt; inP = isPointInPlot v \<lparr>px = g_x evt, py = g_y evt\<rparr>;
          pre = isPreMouseInPlot v
      in (if n \<in> set ALL_EVENTS \<and> inP then [''plot:'' @ n] else [])
       @ (if n = ''mousemove'' \<and> pre \<and> \<not> inP then [''plot:mouseleave'']
          else if n = ''mousemove'' \<and> \<not> pre \<and> inP then [''plot:mouseenter'']
          else if n = ''mouseleave'' \<and> pre \<and> \<not> inP then [''plot:mouseleave'']
          else [])
       @ [n])"
  using assms
  by (auto simp: emitted_names_def onCanvasEvent_def doPlotEvent_def Let_def createViewEvent_def
        PLOT_MOUSE_LEAVE_def PLOT_MOUSE_ENTER_def ALL_EVENTS_def split: prod.splits)

lemma flag_after_eq:
  assumes "CHR '':'' \<notin> set (g_name evt)"
  shows "flag_after v evt =
     (let n = g_name evt; inP = isPointInPlot v \<lparr>px = g_x evt, py = g_y evt\<rparr>;
          pre = isPreMouseInPlot v
      in if n = ''mousemove'' then inP else if n = ''mouseleave'' then False else pre)"
  using assms
  by (auto simp: flag_after_def onCanvasEvent_def doPlotEvent_def Let_def createViewEvent_def
        PLOT_MOUSE_LEAVE_def PLOT_MOUSE_ENTER_def ALL_EVENTS_def split: prod.splits)

text \<open>A view whose plot is the pixel box (0,0)-(100,100), and some canvas events.\<close>

definition plot_view :: view where
  "plot_view =
     (View_new ''view1'' id (JObj []))
       \<lparr>coordinateInstance := Some (rect_coordinate \<lparr>px = 0, py = 0\<rparr> \<lparr>px = 100, py = 100\<rparr>)\<rparr>"

definition canvas_event :: "string \<Rightarrow> real \<Rightarrow> real \<Rightarrow> gevent" where
  "canvas_event n x y = \<lparr>g_name = n, g_x = x, g_y = y, g_origin = None\<rparr>"

lemma plot_view_inside: "isPointInPlot plot_view \<lparr>px = 50, py = 50\<rparr>"
  by (simp add: plot_view_def isPointInPlot_def getCoordinate_def isPointInCoordinate_def
        isBetween_def rect_coordinate_def rect_invert_def)

lemma plot_view_flag: "isPreMouseInPlot plot_view = False"
  by (simp add: plot_view_def View_new_def)

lemma plot_view_set_inside:
  "isPointInPlot (plot_view\<lparr>isPreMouseInPlot := b\<rparr>) \<lparr>px = 50, py = 50\<rparr>"
  by (simp add: plot_view_def isPointInPlot_def getCoordinate_def isPointInCoordinate_def
        isBetween_def rect_coordinate_def rect_invert_def)

lemma plot_view_set_outside:
  "\<not> isPointInPlot (plot_view\<lparr>isPreMouseInPlot := b\<rparr>) \<lparr>px = 150, py = 150\<rparr>"
  by (simp add: plot_view_def isPointInPlot_def getCoordinate_def isPointInCoordinate_def
        isBetween_def rect_coordinate_def rect_invert_def)

text \<open>
  C7, as stated, promises the generic \<open>plot:<type>\<close> event for every raw canvas pointer
  event inside the plot.  \<open>doPlotEvent\<close> is gated by its list of twelve event types: a
  \<open>mouseover\<close> inside the plot emits no \<open>plot:mouseover\<close>.
\<close>

theorem plot_generic_event_counterexample:
  "CHR '':'' \<notin> set ''mouseover''
   \<and> isPointInPlot plot_view \<lparr>px = 50, py = 50\<rparr>
   \<and> ''plot:mouseover'' \<notin> set (emitted_names plot_view (canvas_event ''mouseover'' 50 50))
   \<and> emitted_names plot_view (canvas_event ''mouseover'' 50 50) = [''mouseover'']"
proof -
  have c: "CHR '':'' \<notin> set (g_name (canvas_event ''mouseover'' 50 50))"
    by (simp add: canvas_event_def)
  have n: "emitted_names plot_view (canvas_event ''mouseover'' 50 50) = [''mouseover'']"
    using emitted_names_eq [OF c, of plot_view]
    by (simp add: canvas_event_def ALL_EVENTS_def)
  from n plot_view_inside show ?thesis by simp
qed

text \<open>
  C7, amended.  For every raw (not colon-delimited) canvas event processed by a view, with
  \<open>pre\<close> the sticky flag before and \<open>inP\<close> the containment of the pointer in the plot,
  the emissions are, in this order: the generic \<open>plot:<type>\<close> if the type is one of the
  twelve of \<open>ALL_EVENTS\<close> and \<open>inP\<close>; then \<open>plot:mouseleave\<close> on a \<open>mousemove\<close> with
  \<open>pre \<and> \<not> inP\<close>, \<open>plot:mouseenter\<close> on a \<open>mousemove\<close> with \<open>\<not> pre \<and> inP\<close>, and
  \<open>plot:mouseleave\<close> on a \<open>mouseleave\<close> with \<open>pre \<and> \<not> inP\<close>; then the event itself.
  The flag becomes \<open>inP\<close> on a \<open>mousemove\<close>, false on a \<open>mouseleave\<close>, and is left as
  it was by every other event.  Hence, whatever the event: when the flag flips, exactly
  one event named \<open>plot:mouseenter\<close> or \<open>plot:mouseleave\<close> is emitted, \<open>plot:mouseenter\<close>
  when it flips to true and \<open>plot:mouseleave\<close> when it flips to false; when the flag does
  not flip, neither is emitted, but for the generic \<open>plot:mouseleave\<close> of a \<open>mouseleave\<close>
  inside the plot with the flag false.  In particular: on a \<open>mousemove\<close>,
  \<open>plot:mouseenter\<close> is emitted iff \<open>\<not> pre \<and> inP\<close> and \<open>plot:mouseleave\<close> iff
  \<open>pre \<and> \<not> inP\<close>; on a \<open>mouseleave\<close> with the flag set, exactly one \<open>plot:mouseleave\<close>
  is emitted and the flag is reset; and for a type outside \<open>ALL_EVENTS\<close> only the event
  itself is emitted.
\<close>

theorem plot_transition_events:
  assumes "CHR '':'' \<notin> set (g_name evt)"
  shows
    "emitted_names v evt =
       (if g_name evt \<in> set ALL_EVENTS \<and> isPointInPlot v \<lparr>px = g_x evt, py = g_y evt\<rparr>
        then [''plot:'' @ g_name evt] else [])
       @ (if g_name evt = ''mousemove'' \<and> isPreMouseInPlot v
               \<and> \<not> isPointInPlot v \<lparr>px = g_x evt, py = g_y evt\<rparr>
          then [''plot:mouseleave'']
          else if g_name evt = ''mousemove'' \<and> \<not> isPreMouseInPlot v
               \<and> isPointInPlot v \<lparr>px = g_x evt, py = g_y evt\<rparr>
          then [''plot:mouseenter'']
          else if g_name evt = ''mouseleave'' \<and> isPreMouseInPlot v
               \<and> \<not> isPointInPlot v \<lparr>px = g_x evt, py = g_y evt\<rparr>
          then [''plot:mouseleave'']
          else [])
       @ [g_name evt]
     \<and> flag_after v evt =
         (if g_name evt = ''mousemove'' then isPointInPlot v \<lparr>px = g_x evt, py = g_y evt\<rparr>
          else if g_name evt = ''mouseleave'' then False
          else isPreMouseInPlot v)
     \<and> (flag_after v evt \<noteq> isPreMouseInPlot v \<longrightarrow>
          filter (\<lambda>n. n = ''plot:mouseenter'' \<or> n = ''plot:mouseleave'') (emitted_names v evt)
            = (if flag_after v evt then [''plot:mouseenter''] else [''plot:mouseleave'']))
     \<and> (flag_after v evt = isPreMouseInPlot v \<longrightarrow>
          filter (\<lambda>n. n = ''plot:mouseenter'' \<or> n = ''plot:mouseleave'') (emitted_names v evt)
            = (if g_name evt = ''mouseleave'' \<and> isPointInPlot v \<lparr>px = g_x evt, py = g_y evt\<rparr>
               then [''plot:mouseleave''] else []))
     \<and> (g_name evt = ''mousemove'' \<longrightarrow>
        (''plot:mouseenter'' \<in> set (emitted_names v evt)
           \<longleftrightarrow> \<not> isPreMouseInPlot v \<and> isPointInPlot v \<lparr>px = g_x evt, py = g_y evt\<rparr>)
      \<and> (''plot:mouseleave'' \<in> set (emitted_names v evt)
           \<longleftrightarrow> isPreMouseInPlot v \<and> \<not> isPointInPlot v \<lparr>px = g_x evt, py = g_y evt\<rparr>)
      \<and> length (filter (\<lambda>n. n = ''plot:mouseenter'' \<or> n = ''plot:mouseleave'') (emitted_names v evt))
           = (if flag_after v evt = isPreMouseInPlot v then 0 else 1)
      \<and> flag_after v evt = isPointInPlot v \<lparr>px = g_x evt, py = g_y evt\<rparr>)
     \<and> (g_name evt = ''mouseleave'' \<and> isPreMouseInPlot v \<longrightarrow>
        count_list (emitted_names v evt) ''plot:mouseleave'' = 1
      \<and> ''plot:mouseenter'' \<notin> set (emitted_names v evt)
      \<and> flag_after v evt = False)
     \<and> (g_name evt \<in> set ALL_EVENTS \<and> isPointInPlot v \<lparr>px = g_x evt, py = g_y evt\<rparr> \<longrightarrow>
        (''plot:'' @ g_name evt) \<in> set (emitted_names v evt))
     \<and> (g_name evt \<notin> set ALL_EVENTS \<longrightarrow>
        emitted_names v evt = [g_name evt] \<and> flag_after v evt = isPreMouseInPlot v)"
proof -
  note n = emitted_names_eq [OF assms, of v] and f = flag_after_eq [OF assms, of v]
  have raw: "g_name evt \<noteq> ''plot:mouseenter''" "g_name evt \<noteq> ''plot:mouseleave''"
    using assms by auto
  have names: "emitted_names v evt =
       (if g_name evt \<in> set ALL_EVENTS \<and> isPointInPlot v \<lparr>px = g_x evt, py = g_y evt\<rparr>
        then [''plot:'' @ g_name evt] else [])
       @ (if g_name evt = ''mousemove'' \<and> isPreMouseInPlot v
               \<and> \<not> isPointInPlot v \<lparr>px = g_x evt, py = g_y evt\<rparr>
          then [''plot:mouseleave'']
          else if g_name evt = ''mousemove'' \<and> \<not> isPreMouseInPlot v
               \<and> isPointInPlot v \<lparr>px = g_x evt, py = g_y evt\<rparr>
          then [''plot:mouseenter'']
          else if g_name evt = ''mouseleave'' \<and> isPreMouseInPlot v
               \<and> \<not> isPointInPlot v \<lparr>px = g_x evt, py = g_y evt\<rparr>
          then [''plot:mouseleave'']
          else [])
       @ [g_name evt]"
    unfolding n Let_def by (rule refl)
  have flag: "flag_after v evt =
         (if g_name evt = ''mousemove'' then isPointInPlot v \<lparr>px = g_x evt, py = g_y evt\<rparr>
          else if g_name evt = ''mouseleave'' then False
          else isPreMouseInPlot v)"
    unfolding f Let_def by (rule refl)
  have flip: "flag_after v evt \<noteq> isPreMouseInPlot v \<longrightarrow>
          filter (\<lambda>n. n = ''plot:mouseenter'' \<or> n = ''plot:mouseleave'') (emitted_names v evt)
            = (if flag_after v evt then [''plot:mouseenter''] else [''plot:mouseleave''])"
    using raw by (auto simp: names flag ALL_EVENTS_def)
  have still: "flag_after v evt = isPreMouseInPlot v \<longrightarrow>
          filter (\<lambda>n. n = ''plot:mouseenter'' \<or> n = ''plot:mouseleave'') (emitted_names v evt)
            = (if g_name evt = ''mouseleave'' \<and> isPointInPlot v \<lparr>px = g_x evt, py = g_y evt\<rparr>
               then [''plot:mouseleave''] else [])"
    using raw by (auto simp: names flag ALL_EVENTS_def)
  have move: "g_name evt = ''mousemove'' \<longrightarrow>
        (''plot:mouseenter'' \<in> set (emitted_names v evt)
           \<longleftrightarrow> \<not> isPreMouseInPlot v \<and> isPointInPlot v \<lparr>px = g_x evt, py = g_y evt\<rparr>)
      \<and> (''plot:mouseleave'' \<in> set (emitted_names v evt)
           \<longleftrightarrow> isPreMouseInPlot v \<and> \<not> isPointInPlot v \<lparr>px = g_x evt, py = g_y evt\<rparr>)
      \<and> length (filter (\<lambda>n. n = ''plot:mouseenter'' \<or> n = ''plot:mouseleave'') (emitted_names v evt))
           = (if flag_after v evt = isPreMouseInPlot v then 0 else 1)
      \<and> flag_after v evt = isPointInPlot v \<lparr>px = g_x evt, py = g_y evt\<rparr>"
    by (auto simp: n f Let_def)
  have leave: "g_name evt = ''mouseleave'' \<and> isPreMouseInPlot v \<longrightarrow>
        count_list (emitted_names v evt) ''plot:mouseleave'' = 1
      \<and> ''plot:mouseenter'' \<notin> set (emitted_names v evt)
      \<and> flag_after v evt = False"
    by (auto simp: n f Let_def ALL_EVENTS_def)
  have generic: "g_name evt \<in> set ALL_EVENTS \<and> isPointInPlot v \<lparr>px = g_x evt, py = g_y evt\<rparr> \<longrightarrow>
        (''plot:'' @ g_name evt) \<in> set (emitted_names v evt)"
    by (simp add: n Let_def)
  have other: "g_name evt \<notin> set ALL_EVENTS \<longrightarrow>
        emitted_names v evt = [g_name evt] \<and> flag_after v evt = isPreMouseInPlot v"
    by (auto simp: n f Let_def ALL_EVENTS_def)
  from names flag flip still move leave generic other show ?thesis by blast
qed

theorem plot_transition_events_witness:
  "emitted_names plot_view (canvas_event ''mousemove'' 50 50)
      = [''plot:mousemove'', ''plot:mouseenter'', ''mousemove'']
   \<and> flag_after plot_view (canvas_event ''mousemove'' 50 50) = True
   \<and> emitted_names (plot_view\<lparr>isPreMouseInPlot := True\<rparr>) (canvas_event ''mousemove'' 150 150)
      = [''plot:mouseleave'', ''mousemove'']
   \<and> flag_after (plot_view\<lparr>isPreMouseInPlot := True\<rparr>) (canvas_event ''mousemove'' 150 150) = False
   \<and> emitted_names (plot_view\<lparr>isPreMouseInPlot := True\<rparr>) (canvas_event ''mouseleave'' 150 150)
      = [''plot:mouseleave'', ''mouseleave'']
   \<and> flag_after (plot_view\<lparr>isPreMouseInPlot := True\<rparr>) (canvas_event ''mouseleave'' 150 150) = False
   \<and> emitted_names (plot_view\<lparr>isPreMouseInPlot := True\<rparr>) (canvas_event ''mouseleave'' 50 50)
      = [''plot:mouseleave'', ''mouseleave'']
   \<and> emitted_names plot_view (canvas_event ''mouseleave'' 50 50)
      = [''plot:mouseleave'', ''mouseleave'']
   \<and> flag_after plot_view (canvas_event ''mouseleave'' 50 50) = isPreMouseInPlot plot_view
   \<and> emitted_names plot_view (canvas_event ''click'' 50 50) = [''plot:click'', ''click'']
   \<and> flag_after plot_view (canvas_event ''click'' 50 50) = False
   \<and> flag_after (plot_view\<lparr>isPreMouseInPlot := True\<rparr>) (canvas_event ''click'' 150 150) = True
   \<and> emitted_names plot_view (canvas_event ''mouseover'' 50 50) = [''mouseover'']"
proof -
  have c: "CHR '':'' \<notin> set (g_name (canvas_event ''mousemove'' x y))"
          "CHR '':'' \<notin> set (g_name (canvas_event ''mouseleave'' x y))"
          "CHR '':'' \<notin> set (g_name (canvas_event ''click'' x y))"
          "CHR '':'' \<notin> set (g_name (canvas_event ''mouseover'' x y))" for x y
    by (simp_all add: canvas_event_def)
  have ev: "g_name (canvas_event n x y) = n" "g_x (canvas_event n x y) = x"
           "g_y (canvas_event n x y) = y" for n x y
    by (simp_all add: canvas_event_def)
  have inside: "isPointInPlot plot_view \<lparr>px = 50, py = 50\<rparr>"
               "isPointInPlot (plot_view\<lparr>isPreMouseInPlot := True\<rparr>) \<lparr>px = 50, py = 50\<rparr>"
    by (rule plot_view_inside) (simp add: plot_view_set_inside)
  have outside: "\<not> isPointInPlot (plot_view\<lparr>isPreMouseInPlot := True\<rparr>) \<lparr>px = 150, py = 150\<rparr>"
    by (rule plot_view_set_outside)
  have flags: "isPreMouseInPlot plot_view = False"
              "isPreMouseInPlot (plot_view\<lparr>isPreMouseInPlot := True\<rparr>) = True"
    by (simp_all add: plot_view_flag)
  note T = plot_transition_events
  have a: "emitted_names plot_view (canvas_event ''mousemove'' 50 50)
      = [''plot:mousemove'', ''plot:mouseenter'', ''mousemove'']"
    using T [OF c(1) [of 50 50], where v = plot_view, THEN conjunct1]
    by (simp add: ev inside flags ALL_EVENTS_def)
  have a': "flag_after plot_view (canvas_event ''mousemove'' 50 50) = True"
    using T [OF c(1) [of 50 50], where v = plot_view, THEN conjunct2, THEN conjunct1]
    by (simp add: ev inside)
  have b: "emitted_names (plot_view\<lparr>isPreMouseInPlot := True\<rparr>) (canvas_event ''mousemove'' 150 150)
      = [''plot:mouseleave'', ''mousemove'']"
    using T [OF c(1) [of 150 150], where v = "plot_view\<lparr>isPreMouseInPlot := True\<rparr>", THEN conjunct1]
    by (simp add: ev outside flags ALL_EVENTS_def)
  have b': "flag_after (plot_view\<lparr>isPreMouseInPlot := True\<rparr>) (canvas_event ''mousemove'' 150 150) = False"
    using T [OF c(1) [of 150 150], where v = "plot_view\<lparr>isPreMouseInPlot := True\<rparr>", THEN conjunct2, THEN conjunct1]
    by (simp add: ev outside)
  have d: "emitted_names (plot_view\<lparr>isPreMouseInPlot := True\<rparr>) (canvas_event ''mouseleave'' 150 150)
      = [''plot:mouseleave'', ''mouseleave'']"
    using T [OF c(2) [of 150 150], where v = "plot_view\<lparr>isPreMouseInPlot := True\<rparr>", THEN conjunct1]
    by (simp add: ev outside flags ALL_EVENTS_def)
  have d': "flag_after (plot_view\<lparr>isPreMouseInPlot := True\<rparr>) (canvas_event ''mouseleave'' 150 150) = False"
    using T [OF c(2) [of 150 150], where v = "plot_view\<lparr>isPreMouseInPlot := True\<rparr>", THEN conjunct2, THEN conjunct1]
    by (simp add: ev)
  have e: "emitted_names (plot_view\<lparr>isPreMouseInPlot := True\<rparr>) (canvas_event ''mouseleave'' 50 50)
      = [''plot:mouseleave'', ''mouseleave'']"
    using T [OF c(2) [of 50 50], where v = "plot_view\<lparr>isPreMouseInPlot := True\<rparr>", THEN conjunct1]
    by (simp add: ev inside flags ALL_EVENTS_def)
  have g: "emitted_names plot_view (canvas_event ''mouseleave'' 50 50)
      = [''plot:mouseleave'', ''mouseleave'']"
    using T [OF c(2) [of 50 50], where v = plot_view, THEN conjunct1]
    by (simp add: ev inside flags ALL_EVENTS_def)
  have g': "flag_after plot_view (canvas_event ''mouseleave'' 50 50) = isPreMouseInPlot plot_view"
    using T [OF c(2) [of 50 50], where v = plot_view, THEN conjunct2, THEN conjunct1]
    by (simp add: ev flags)
  have h: "emitted_names plot_view (canvas_event ''click'' 50 50) = [''plot:click'', ''click'']"
    using T [OF c(3) [of 50 50], where v = plot_view, THEN conjunct1]
    by (simp add: ev inside flags ALL_EVENTS_def)
  have h': "flag_after plot_view (canvas_event ''click'' 50 50) = False"
    using T [OF c(3) [of 50 50], where v = plot_view, THEN conjunct2, THEN conjunct1]
    by (simp add: ev flags)
  have h'': "flag_after (plot_view\<lparr>isPreMouseInPlot := True\<rparr>) (canvas_event ''click'' 150 150) = True"
    using T [OF c(3) [of 150 150], where v = "plot_view\<lparr>isPreMouseInPlot := True\<rparr>", THEN conjunct2, THEN conjunct1]
    by (simp add: ev flags)
  have k: "emitted_names plot_view (canvas_event ''mouseover'' 50 50) = [''mouseover'']"
    using T [OF c(4) [of 50 50], where v = plot_view, THEN conjunct1]
    by (simp add: ev ALL_EVENTS_def)
  from a a' b b' d d' e g g' h h' h'' k show ?thesis by blast
qed

section \<open>Configuration errors\<close>

datatype js_error = Error string | TypeError string

text \<open>
  A call that can throw returns \<open>Inl\<close> with the error and the state of the view at the
  throw, or \<open>Inr\<close> with the state at the return.
\<close>

type_synonym view_result = "(js_error \<times> view) + view"

text \<open>
  Modelled from the spec: \<open>Facet.destroy\<close> (the facet classes are not among the sources).
  The spec gives \<open>destroy\<close> as the terminal step of a lifecycle; the model records only
  that the instance is destroyed.
\<close>

definition facet_destroy :: "facet \<Rightarrow> facet" where
  "facet_destroy f = f\<lparr>fdestroyed := True\<rparr>"

definition apostrophe :: string where
  "apostrophe = [CHR 0x27]"

definition quote_mark :: string where
  "quote_mark = [CHR 0x22]"

text \<open>
  \<open>View.facet\<close>.  \<open>registered\<close> lists the facet types that \<open>getFacet\<close> finds a
  constructor for; the instance built is \<open>new Ctor(this, { ...cfg, type })\<close>.
\<close>

definition view_facet :: "string list \<Rightarrow> view \<Rightarrow> string \<Rightarrow> jv \<Rightarrow> view_result" where
  "view_facet registered v type cfg =
     (let v1 = (case facetInstance v of
                  Some f \<Rightarrow> v\<lparr>facetInstance := Some (facet_destroy f)\<rparr>
                | None \<Rightarrow> v)
      in if type \<notin> set registered
         then Inl (Error (''facet '' @ apostrophe @ type @ apostrophe @ '' is not exist!''), v1)
         else Inr (v1\<lparr>facetInstance :=
                      Some \<lparr>ftype = type, fcfg = spread cfg (JObj [(''type'', JStr type)]),
                            fdestroyed = False\<rparr>\<rparr>))"

text \<open>
  The methods the View class declares: each is a property of \<open>View.prototype\<close>.  (The
  three handlers written as arrow functions are properties of the instance, not of the
  prototype.)  \<open>registerGeometry\<close> adds one method per geometry, and the base classes
  up the prototype chain bring their own; these come as the list \<open>extra\<close>.
\<close>

definition View_methods :: "string list" where
  "View_methods =
     [''setLayout'', ''init'', ''render'', ''clear'', ''destroy'', ''changeVisible'', ''data'',
      ''filter'', ''axis'', ''legend'', ''scale'', ''tooltip'', ''annotation'', ''coordinate'',
      ''facet'', ''animate'', ''updateOptions'', ''option'', ''theme'', ''interaction'',
      ''removeInteraction'', ''changeData'', ''createView'', ''removeView'', ''getCoordinate'',
      ''getTheme'', ''getXScale'', ''getYScales'', ''getScalesByDim'', ''getScaleByField'',
      ''getOptions'', ''getData'', ''getLayer'', ''isPointInPlot'', ''getLegendAttributes'',
      ''getGroupScales'', ''getCanvas'', ''getRootView'', ''getXY'', ''getController'',
      ''showTooltip'', ''hideTooltip'', ''lockTooltip'', ''unlockTooltip'', ''isTooltipLocked'',
      ''getTooltipItems'', ''getComponents'', ''filterData'', ''filterFieldData'',
      ''adjustCoordinate'', ''paint'', ''renderDataRecursive'', ''renderLayoutRecursive'',
      ''renderPaintRecursive'', ''createScale'', ''calculateViewBBox'',
      ''createViewEventCaptureRect'', ''initEvents'', ''initComponentController'',
      ''createViewEvent'', ''doPlotEvent'', ''doFilterData'', ''initGeometries'',
      ''createOrUpdateScales'', ''syncScale'', ''getGeometryScales'', ''getScaleFields'',
      ''getGroupedFields'', ''adjustScales'', ''adjustCategoryScaleRange'', ''initComponents'',
      ''doLayout'', ''createCoordinate'', ''paintGeometries'', ''renderComponents'',
      ''renderFacet'', ''initOptions'', ''createGeometry'', ''getScaleKey'', ''addGeometry'']"

definition on_prototype :: "string list \<Rightarrow> string \<Rightarrow> bool" where
  "on_prototype extra name = (name \<in> set View_methods \<or> name \<in> set extra)"

text \<open>
  \<open>View.option\<close>.  \<open>uset\<close> is the utility library's \<open>set(obj, path, value)\<close> on the
  options.
\<close>

definition view_option ::
  "string list \<Rightarrow> (options \<Rightarrow> string \<Rightarrow> jv \<Rightarrow> options) \<Rightarrow> view \<Rightarrow> string \<Rightarrow> jv \<Rightarrow> view_result" where
  "view_option extra uset v name opt =
     (if on_prototype extra name
      then Inl (Error (''Can'' @ apostrophe @ ''t built in variable name '' @ quote_mark @ name
                       @ quote_mark @ '', please change another one.''), v)
      else Inr (v\<lparr>voptions := uset (voptions v) name opt\<rparr>))"

text \<open>A view that already has a facet, built by a successful call of \<open>facet\<close>.\<close>

definition faceted_view :: view where
  "faceted_view =
     (case view_facet [''rect''] (View_new ''view1'' id (JObj [])) ''rect'' (JObj []) of
        Inr v \<Rightarrow> v
      | Inl ev \<Rightarrow> snd ev)"

lemma faceted_view_facet:
  "facetInstance faceted_view =
     Some \<lparr>ftype = ''rect'', fcfg = JObj [(''type'', JStr ''rect'')], fdestroyed = False\<rparr>"
  by (simp add: faceted_view_def view_facet_def View_new_def spread_def)

text \<open>
  C9, as stated, has no mutation of the view's state before either error is thrown.
  \<open>facet\<close> destroys the facet the view holds before it looks the new type up: on a view
  with a facet, a call with an unregistered type throws and leaves that facet destroyed.
\<close>

theorem facet_throw_counterexample:
  "view_facet [''rect''] faceted_view ''nope'' (JObj [])
     = Inl (Error (''facet '' @ apostrophe @ ''nope'' @ apostrophe @ '' is not exist!''),
            faceted_view\<lparr>facetInstance :=
              Some \<lparr>ftype = ''rect'', fcfg = JObj [(''type'', JStr ''rect'')], fdestroyed = True\<rparr>\<rparr>)
   \<and> facetInstance faceted_view
       = Some \<lparr>ftype = ''rect'', fcfg = JObj [(''type'', JStr ''rect'')], fdestroyed = False\<rparr>
   \<and> faceted_view\<lparr>facetInstance :=
              Some \<lparr>ftype = ''rect'', fcfg = JObj [(''type'', JStr ''rect'')], fdestroyed = True\<rparr>\<rparr>
       \<noteq> faceted_view"
proof -
  have run: "view_facet [''rect''] faceted_view ''nope'' (JObj [])
     = Inl (Error (''facet '' @ apostrophe @ ''nope'' @ apostrophe @ '' is not exist!''),
            faceted_view\<lparr>facetInstance :=
              Some \<lparr>ftype = ''rect'', fcfg = JObj [(''type'', JStr ''rect'')], fdestroyed = True\<rparr>\<rparr>)"
    by (simp add: view_facet_def faceted_view_facet facet_destroy_def)
  have ne: "faceted_view\<lparr>facetInstance :=
              Some \<lparr>ftype = ''rect'', fcfg = JObj [(''type'', JStr ''rect'')], fdestroyed = True\<rparr>\<rparr>
       \<noteq> faceted_view"
  proof
    assume "faceted_view\<lparr>facetInstance :=
              Some \<lparr>ftype = ''rect'', fcfg = JObj [(''type'', JStr ''rect'')], fdestroyed = True\<rparr>\<rparr>
       = faceted_view"
    then have "facetInstance (faceted_view\<lparr>facetInstance :=
              Some \<lparr>ftype = ''rect'', fcfg = JObj [(''type'', JStr ''rect'')], fdestroyed = True\<rparr>\<rparr>)
       = facetInstance faceted_view"
      by simp
    then show False
      by (simp add: faceted_view_facet)
  qed
  from run ne faceted_view_facet show ?thesis by simp
qed

text \<open>
  C9, amended.  \<open>option(name, value)\<close> with a name that is a property of the View
  prototype throws an Error with the view exactly as it was.  \<open>facet(type, cfg)\<close> with a
  type that has no registered constructor throws an Error; by then the facet instance
  the view held, if any, has been destroyed, and nothing else has changed: the options
  record is the same, and a view without a facet is exactly as it was.
\<close>

theorem config_errors_thrown:
  "(on_prototype extra name \<longrightarrow>
      (\<exists>msg. view_option extra uset v name opt = Inl (Error msg, v)))
   \<and> (ty \<notin> set registered \<longrightarrow>
      (\<exists>msg v'. view_facet registered v ty cfg = Inl (Error msg, v')
          \<and> voptions v' = voptions v
          \<and> v' = v\<lparr>facetInstance := map_option facet_destroy (facetInstance v)\<rparr>
          \<and> (facetInstance v = None \<longrightarrow> v' = v)))"
  by (auto simp: view_option_def view_facet_def Let_def split: option.splits)

theorem config_errors_thrown_witness:
  "(\<exists>msg. view_option [''interval''] (\<lambda>os k x. os) faceted_view ''data'' (JNum 1)
            = Inl (Error msg, faceted_view))
   \<and> (\<exists>msg. view_option [''interval''] (\<lambda>os k x. os) faceted_view ''interval'' (JNum 1)
            = Inl (Error msg, faceted_view))
   \<and> (\<exists>msg. view_facet [''rect''] (View_new ''view1'' id (JObj [])) ''nope'' (JObj [])
            = Inl (Error msg, View_new ''view1'' id (JObj [])))"
proof -
  have p1: "on_prototype [''interval''] ''data''"
    by (simp add: on_prototype_def View_methods_def)
  have p2: "on_prototype [''interval''] ''interval''"
    by (simp add: on_prototype_def)
  have p3: "''nope'' \<notin> set [''rect'']"
    by simp
  have n: "facetInstance (View_new ''view1'' id (JObj [])) = None"
    by (simp add: View_new_def)
  from config_errors_thrown [of "[''interval'']" "''data''" "\<lambda>os k x. os" faceted_view "JNum 1"] p1
  have a: "\<exists>msg. view_option [''interval''] (\<lambda>os k x. os) faceted_view ''data'' (JNum 1)
            = Inl (Error msg, faceted_view)"
    by blast
  from config_errors_thrown [of "[''interval'']" "''interval''" "\<lambda>os k x. os" faceted_view "JNum 1"] p2
  have b: "\<exists>msg. view_option [''interval''] (\<lambda>os k x. os) faceted_view ''interval'' (JNum 1)
            = Inl (Error msg, faceted_view)"
    by blast
  from config_errors_thrown [where ty = "''nope''" and registered = "[''rect'']"
         and v = "View_new ''view1'' id (JObj [])" and cfg = "JObj []"]
    p3 n
  have c: "\<exists>msg. view_facet [''rect''] (View_new ''view1'' id (JObj [])) ''nope'' (JObj [])
            = Inl (Error msg, View_new ''view1'' id (JObj []))"
    by metis
  from a b c show ?thesis by blast
qed

section \<open>The range of category scales\<close>

text \<open>
  \<open>getXScale\<close> is the x scale of the first geometry (\<open>null\<close> without geometries);
  \<open>getYScales\<close> the y scales of all geometries, without repetitions.  The scales that are
  adjusted are these, without the missing ones.
\<close>

definition getXScale :: "view \<Rightarrow> nat option" where
  "getXScale v = (case geometries v of [] \<Rightarrow> None | g # gs \<Rightarrow> g_xScale g)"

definition getYScales :: "view \<Rightarrow> nat option list" where
  "getYScales v = uniq (map g_yScale (geometries v))"

definition xyScales :: "view \<Rightarrow> nat list" where
  "xyScales v = map the (filter (\<lambda>e. e \<noteq> None) (getXScale v # getYScales v))"

text \<open>
  Inside a method of the View, \<open>this.theme\<close> is the method \<open>theme\<close> that the class
  declares (the setter of the theme), a function.  The theme itself is held by
  \<open>this.themeObject\<close>.
\<close>

definition this_theme :: "view \<Rightarrow> jv" where
  "this_theme v = JFn ''theme''"

text \<open>
  The range computed for a scale with \<open>count\<close> values.  A single value gives
  \<open>[0.5, 1]\<close> whatever the coordinate is; otherwise the coordinate is read, which throws a
  TypeError when there is none.  The case of no values at all spells out what the
  divisions by zero give.
\<close>

definition category_range :: "view \<Rightarrow> coordinate option \<Rightarrow> nat \<Rightarrow> js_error + jsnum list" where
  "category_range v coordinate count =
     (if count = 1 then Inr [Fin 0.5, Fin 1]
      else case coordinate of
        None \<Rightarrow> Inl (TypeError ''Cannot read properties of undefined'')
      | Some c \<Rightarrow>
          if isFullCircle c then
            (if \<not> isTransposed c then
               Inr (if count = 0 then [Fin 0, NegInf] else [Fin 0, Fin (1 - 1 / real count)])
             else
               (let widthRatio = to_number (jget (this_theme v) [''widthRatio'', ''multiplePie'']
                                            (JNum (1 / 1.3)));
                    offset = (1 / real count) * widthRatio
                in Inr (if count = 0 then [PosInf, NegInf]
                        else [Fin (offset / 2), Fin (1 - offset / 2)])))
          else
            (let offset = 1 / real count / 2
             in Inr (if count = 0 then [PosInf, NegInf] else [Fin offset, Fin (1 - offset)])))"

text \<open>
  The body of the loop of \<open>adjustCategoryScaleRange\<close> for one scale: only a category or
  identity scale with a \<open>values\<close> array, for whose field the user configured no range,
  gets a new range.
\<close>

definition adjust_scale :: "view \<Rightarrow> scale \<Rightarrow> js_error + scale" where
  "adjust_scale v sc =
     (if s_isCategory sc \<or> s_isIdentity sc then
        (case s_values sc of
           None \<Rightarrow> Inr sc
         | Some vals \<Rightarrow>
             if \<not> truthy (jget (o_scales (voptions v)) [s_field sc, ''range''] JUndefined) then
               (case category_range v (getCoordinate v) (length vals) of
                  Inl err \<Rightarrow> Inl err
                | Inr rng \<Rightarrow> Inr (sc\<lparr>s_range := rng\<rparr>))
             else Inr sc)
      else Inr sc)"

fun adjust_each :: "view \<Rightarrow> nat list \<Rightarrow> (nat \<rightharpoonup> scale) \<Rightarrow> js_error + (nat \<rightharpoonup> scale)" where
  "adjust_each v [] insts = Inr insts"
| "adjust_each v (r # rs) insts =
     (case insts r of
        None \<Rightarrow> adjust_each v rs insts
      | Some sc \<Rightarrow>
          (case adjust_scale v sc of
             Inl err \<Rightarrow> Inl err
           | Inr sc' \<Rightarrow> adjust_each v rs (insts(r \<mapsto> sc'))))"

definition adjustCategoryScaleRange :: "view \<Rightarrow> (nat \<rightharpoonup> scale) \<Rightarrow> js_error + (nat \<rightharpoonup> scale)" where
  "adjustCategoryScaleRange v insts = adjust_each v (xyScales v) insts"

text \<open>
  What \<open>category_range\<close> computes, branch by branch, for a scale with at least one value
  and an existing coordinate.  The ratio of the transposed full circle is always the
  fallback \<open>1 / 1.3\<close>: the lookup starts from the method \<open>theme\<close>, which has no
  \<open>widthRatio\<close>.
\<close>

lemma this_theme_widthRatio:
  "jget (this_theme v) [''widthRatio'', ''multiplePie''] (JNum (1 / 1.3)) = JNum (1 / 1.3)"
  by (simp add: this_theme_def)

lemma category_range_branches:
  assumes "1 \<le> count"
  shows "category_range v (Some c) count =
     Inr (if count = 1 then [Fin 0.5, Fin 1]
          else if isFullCircle c \<and> \<not> isTransposed c then [Fin 0, Fin (1 - 1 / real count)]
          else if isFullCircle c then
            [Fin ((1 / 1.3) / real count / 2), Fin (1 - (1 / 1.3) / real count / 2)]
          else [Fin (1 / (2 * real count)), Fin (1 - 1 / (2 * real count))])"
  using assms by (simp add: category_range_def this_theme_def Let_def)

text \<open>
  A view with a theme that sets \<open>widthRatio.multiplePie\<close> to 0.5, under a transposed
  polar coordinate spanning the full circle, with one geometry whose x scale is a
  category scale of two values and whose y scale is linear.
\<close>

definition full_transposed :: coordinate where
  "full_transposed =
     \<lparr>ctype = ''theta'', cstart = \<lparr>px = 0, py = 100\<rparr>, cend = \<lparr>px = 100, py = 0\<rparr>,
      isPolar = True, isTransposed = True, startAngle = 0, endAngle = 2 * pi,
      cinvert = (\<lambda>p. p)\<rparr>"

definition pie_view :: view where
  "pie_view =
     (View_new ''view1'' id (JObj [(''widthRatio'', JObj [(''multiplePie'', JNum 0.5)])]))
       \<lparr>coordinateInstance := Some full_transposed,
        geometries := [\<lparr>scaleFields = [''type'', ''value''], groupFields = [],
                        g_scales = [(''type'', Some 0), (''value'', Some 1)],
                        g_xScale = Some 0, g_yScale = Some 1\<rparr>]\<rparr>"

definition type_scale :: scale where
  "type_scale =
     \<lparr>s_field = ''type'', s_values = Some [JStr ''a'', JStr ''b''], s_isCategory = True,
      s_isIdentity = False, s_range = [Fin 0, Fin 1], s_def = JUndefined\<rparr>"

definition value_scale :: scale where
  "value_scale =
     \<lparr>s_field = ''value'', s_values = None, s_isCategory = False,
      s_isIdentity = False, s_range = [Fin 0, Fin 1], s_def = JUndefined\<rparr>"

text \<open>
  C3 at this input.  The theme's ratio is 0.5, so the claim gives the offset
  \<open>0.5 / 2 = 0.25\<close> and the range \<open>[0.125, 0.875]\<close>.  The code reads the ratio from
  \<open>this.theme\<close>, gets the fallback \<open>1 / 1.3\<close>, and sets the range \<open>[5/26, 21/26]\<close>.
\<close>

theorem category_range_ignores_theme:
  "jget (themeObject pie_view) [''widthRatio'', ''multiplePie''] (JNum (1 / 1.3)) = JNum 0.5
   \<and> isFullCircle full_transposed
   \<and> adjustCategoryScaleRange pie_view [0 \<mapsto> type_scale, 1 \<mapsto> value_scale]
       = Inr [0 \<mapsto> type_scale\<lparr>s_range := [Fin (5 / 26), Fin (21 / 26)]\<rparr>, 1 \<mapsto> value_scale]
   \<and> [Fin (5 / 26), Fin (21 / 26)] \<noteq> [Fin (0.5 / 2 / 2), Fin (1 - 0.5 / 2 / 2)]"
proof -
  have t: "jget (themeObject pie_view) [''widthRatio'', ''multiplePie''] (JNum (1 / 1.3)) = JNum 0.5"
    by (simp add: pie_view_def View_new_def)
  have f: "isFullCircle full_transposed"
    by (simp add: isFullCircle_def full_transposed_def)
  have xy: "xyScales pie_view = [0, 1]"
    by (simp add: xyScales_def getXScale_def getYScales_def uniq_def pie_view_def)
  have r: "category_range pie_view (Some full_transposed) 2 = Inr [Fin (5 / 26), Fin (21 / 26)]"
    using f by (simp add: category_range_branches full_transposed_def)
  have r': "category_range pie_view (Some full_transposed) (Suc (Suc 0))
              = Inr [Fin (5 / 26), Fin (21 / 26)]"
    using r by (simp only: numeral_2_eq_2)
  have cv: "getCoordinate pie_view = Some full_transposed"
    by (simp add: getCoordinate_def pie_view_def)
  have os: "o_scales (voptions pie_view) = JUndefined"
    by (simp add: pie_view_def View_new_def default_options_def)
  have s0: "adjust_scale pie_view type_scale = Inr (type_scale\<lparr>s_range := [Fin (5 / 26), Fin (21 / 26)]\<rparr>)"
    by (simp add: adjust_scale_def type_scale_def cv os r')
  have s1: "adjust_scale pie_view value_scale = Inr value_scale"
    by (simp add: adjust_scale_def value_scale_def)
  have upd: "[0 \<mapsto> type_scale, 1 \<mapsto> value_scale]
                 (0 \<mapsto> type_scale\<lparr>s_range := [Fin (5 / 26), Fin (21 / 26)]\<rparr>, 1 \<mapsto> value_scale)
             = [0 \<mapsto> type_scale\<lparr>s_range := [Fin (5 / 26), Fin (21 / 26)]\<rparr>, 1 \<mapsto> value_scale]"
    by (rule ext) simp
  have a: "adjustCategoryScaleRange pie_view [0 \<mapsto> type_scale, 1 \<mapsto> value_scale]
       = Inr [0 \<mapsto> type_scale\<lparr>s_range := [Fin (5 / 26), Fin (21 / 26)]\<rparr>, 1 \<mapsto> value_scale]"
    by (simp add: adjustCategoryScaleRange_def xy s0 s1 upd)
  have n: "[Fin (5 / 26), Fin (21 / 26)] \<noteq> [Fin (0.5 / 2 / 2), Fin (1 - 0.5 / 2 / 2)]"
    by simp
  from t f a n show ?thesis by blast
qed

section \<open>Scale keys and the scale pool\<close>

text \<open>
  Modelled from the spec: the scale pool (the class \<open>ScalePool\<close> is not among the
  sources).  \<open>createScale(field, data, scaleDef, key)\<close>: if an entry for the key exists,
  the instance is updated in place with the definition and the same instance is
  returned; otherwise a new instance is constructed, registered under the key and
  returned.  \<open>getScale(key)\<close> gives the instance registered under the key, or
  \<open>undefined\<close>.  How the scale library builds a scale from a field, its data and a
  definition is the parameter \<open>build\<close>.
\<close>

type_synonym scale_builder = "string \<Rightarrow> jv list option \<Rightarrow> jv \<Rightarrow> scale"

definition pool_getScale :: "pool \<Rightarrow> string \<Rightarrow> nat option" where
  "pool_getScale p key = p_entries p key"

definition pool_createScale ::
  "scale_builder \<Rightarrow> pool \<Rightarrow> string \<Rightarrow> jv list option \<Rightarrow> jv \<Rightarrow> string \<Rightarrow> nat \<times> pool" where
  "pool_createScale build p field dat scaleDef key =
     (case p_entries p key of
        Some r \<Rightarrow> (r, p\<lparr>p_insts := (p_insts p)(r \<mapsto> build field dat scaleDef)\<rparr>)
      | None \<Rightarrow>
          (let r = p_next p
           in (r, p\<lparr>p_entries := (p_entries p)(key \<mapsto> r),
                     p_insts := (p_insts p)(r \<mapsto> build field dat scaleDef),
                     p_next := Suc r\<rparr>)))"

text \<open>\<open>View.getScaleKey\<close>: the id of the view, a hyphen, the field.\<close>

definition getScaleKey :: "view \<Rightarrow> string \<Rightarrow> string" where
  "getScaleKey v field = vid v @ ''-'' @ field"

text \<open>The key used by \<open>createScale\<close> and \<open>getScaleByField\<close>: \<open>key ? key : this.getScaleKey(field)\<close>.\<close>

definition defaultKey :: "view \<Rightarrow> string \<Rightarrow> string option \<Rightarrow> string" where
  "defaultKey v field key =
     (case key of
        Some k \<Rightarrow> if k \<noteq> [] then k else getScaleKey v field
      | None \<Rightarrow> getScaleKey v field)"

text \<open>
  A view is given with its ancestors: \<open>this\<close> and the list \<open>parents\<close>, whose head is
  \<open>this.parent\<close> and whose last element is the root view; a root view has the empty list.
  Every view of the list has a scale pool of its own.  \<open>View.getRootView\<close> follows the
  parents to the view that has none.
\<close>

fun getRootView :: "view \<Rightarrow> view list \<Rightarrow> view" where
  "getRootView this [] = this"
| "getRootView this (parent # parents) = getRootView parent parents"

text \<open>
  \<open>View.createScale\<close>.  The definition configured on the view for the field is merged
  under the one passed in and the key is fixed; a view with a parent passes the call on
  to the parent, with that key, and a view without a parent creates the scale in its own
  pool.  The result is the instance, and the view and its ancestors afterwards.
\<close>

fun createScale ::
  "scale_builder \<Rightarrow> view \<Rightarrow> view list \<Rightarrow> string \<Rightarrow> jv list option \<Rightarrow> jv \<Rightarrow> string option
     \<Rightarrow> nat \<times> view \<times> view list" where
  "createScale build this [] field dat scaleDef key =
     (let currentScaleDef = jget (o_scales (voptions this)) [field] JUndefined;
          mergedScaleDef = spread currentScaleDef scaleDef
      in case pool_createScale build (scalePool this) field dat mergedScaleDef
                (defaultKey this field key) of
           (r, p) \<Rightarrow> (r, this\<lparr>scalePool := p\<rparr>, []))"
| "createScale build this (parent # parents) field dat scaleDef key =
     (let currentScaleDef = jget (o_scales (voptions this)) [field] JUndefined;
          mergedScaleDef = spread currentScaleDef scaleDef
      in case createScale build parent parents field dat mergedScaleDef
                (Some (defaultKey this field key)) of
           (r, parent', parents') \<Rightarrow> (r, this, parent' # parents'))"

text \<open>\<open>View.getScaleByField\<close>: the lookup in the pool of the root view.\<close>

definition getScaleByField :: "view \<Rightarrow> view list \<Rightarrow> string \<Rightarrow> string option \<Rightarrow> nat option" where
  "getScaleByField this parents field key =
     pool_getScale (scalePool (getRootView this parents)) (defaultKey this field key)"

text \<open>
  The fields of a view: those of its geometries, each once (\<open>getScaleFields\<close>,
  \<open>getGroupedFields\<close>).
\<close>

definition getScaleFields :: "view \<Rightarrow> string list" where
  "getScaleFields v = uniq (concat (map scaleFields (geometries v)))"

definition getGroupedFields :: "view \<Rightarrow> string list" where
  "getGroupedFields v = uniq (concat (map groupFields (geometries v)))"

text \<open>
  \<open>View.createOrUpdateScales\<close>: the fields, the grouping fields, the data, the scale
  definitions and the filtered data are read first; then a scale is created or updated
  for every field, from the unfiltered data for a grouping field and from the filtered
  data otherwise.  \<open>each_field\<close> is the loop.
\<close>

fun each_field ::
  "scale_builder \<Rightarrow> string list \<Rightarrow> jv list \<Rightarrow> jv \<Rightarrow> jv list option \<Rightarrow> string list
     \<Rightarrow> view \<Rightarrow> view list \<Rightarrow> view \<times> view list" where
  "each_field build groupedFields dat scales fdata [] this parents = (this, parents)"
| "each_field build groupedFields dat scales fdata (field # flds) this parents =
     (case createScale build this parents field
             (if field \<in> set groupedFields then Some dat else fdata)
             (jget scales [field] JUndefined) None of
        (r, this', parents') \<Rightarrow> each_field build groupedFields dat scales fdata flds this' parents')"

definition createOrUpdateScales :: "scale_builder \<Rightarrow> view \<Rightarrow> view list \<Rightarrow> view \<times> view list" where
  "createOrUpdateScales build this parents =
     each_field build (getGroupedFields this) (o_data (voptions this)) (o_scales (voptions this))
       (filteredData this) (getScaleFields this) this parents"

text \<open>\<open>View.getGeometryScales\<close>: for every field of the view, the scale \<open>getScaleByField\<close> finds.\<close>

definition getGeometryScales :: "view \<Rightarrow> view list \<Rightarrow> (string \<times> nat option) list" where
  "getGeometryScales this parents =
     map (\<lambda>field. (field, getScaleByField this parents field None)) (getScaleFields this)"

text \<open>
  \<open>View.initGeometries\<close>, as far as the scales are handed out: the scales are created or
  updated, and then every geometry of the view is assigned, as \<open>geometry.scales\<close>, what
  \<open>getGeometryScales\<close> returns.  (What follows in the source, \<open>geometry.init\<close> or
  \<open>geometry.update\<close> of the class \<open>Geometry\<close>, which is not among the sources, and
  \<open>adjustScales\<close>, registers no key and assigns no \<open>geometry.scales\<close>.)
\<close>

definition initGeometries :: "scale_builder \<Rightarrow> view \<Rightarrow> view list \<Rightarrow> view \<times> view list" where
  "initGeometries build this parents =
     (case createOrUpdateScales build this parents of
        (this', parents') \<Rightarrow>
          (this'\<lparr>geometries :=
                    map (\<lambda>geometry. geometry\<lparr>g_scales := getGeometryScales this' parents'\<rparr>)
                      (geometries this')\<rparr>,
           parents'))"

text \<open>
  The pool invariant: a registered instance lies below the next free address, and no
  instance is registered under two keys.  The empty pool has it, and creation keeps it.
\<close>

definition pool_ok :: "pool \<Rightarrow> bool" where
  "pool_ok p \<longleftrightarrow>
     (\<forall>k r. p_entries p k = Some r \<longrightarrow> r < p_next p)
     \<and> (\<forall>k k' r. p_entries p k = Some r \<and> p_entries p k' = Some r \<longrightarrow> k = k')"

text \<open>
  Three notions for the proofs.  \<open>set_root_pool\<close> is the view and its ancestors with the
  pool of the root view replaced, and nothing else changed.  \<open>chain_def\<close> is the scale
  definition that reaches the pool: the definitions configured for the field along the
  parents, each merged under what came from below.  \<open>pool_pass\<close> is what the loop of
  \<open>createOrUpdateScales\<close> does to the pool of the root view.
\<close>

fun set_root_pool :: "view \<Rightarrow> view list \<Rightarrow> pool \<Rightarrow> view \<times> view list" where
  "set_root_pool this [] p = (this\<lparr>scalePool := p\<rparr>, [])"
| "set_root_pool this (parent # parents) p =
     (this, fst (set_root_pool parent parents p) # snd (set_root_pool parent parents p))"

fun chain_def :: "view \<Rightarrow> view list \<Rightarrow> string \<Rightarrow> jv \<Rightarrow> jv" where
  "chain_def this [] field scaleDef =
     spread (jget (o_scales (voptions this)) [field] JUndefined) scaleDef"
| "chain_def this (parent # parents) field scaleDef =
     chain_def parent parents field
       (spread (jget (o_scales (voptions this)) [field] JUndefined) scaleDef)"

definition pool_pass ::
  "scale_builder \<Rightarrow> string list \<Rightarrow> jv list \<Rightarrow> jv \<Rightarrow> jv list option \<Rightarrow> view \<Rightarrow> view list
     \<Rightarrow> pool \<Rightarrow> string list \<Rightarrow> pool" where
  "pool_pass build groupedFields dat scales fdata this parents p flds =
     foldl (\<lambda>q field.
              snd (pool_createScale build q field
                     (if field \<in> set groupedFields then Some dat else fdata)
                     (chain_def this parents field (jget scales [field] JUndefined))
                     (getScaleKey this field)))
           p flds"

lemma pool_ok_empty: "pool_ok empty_pool"
  by (simp add: pool_ok_def empty_pool_def)

lemma pool_create_entry:
  "p_entries (snd (pool_createScale build p field dat d key)) key
     = Some (fst (pool_createScale build p field dat d key))"
  by (simp add: pool_createScale_def Let_def split: option.splits)

lemma pool_create_other:
  "k \<noteq> key \<Longrightarrow> p_entries (snd (pool_createScale build p field dat d key)) k = p_entries p k"
  by (simp add: pool_createScale_def Let_def split: option.splits)

lemma pool_create_existing:
  "p_entries p key = Some r \<Longrightarrow> fst (pool_createScale build p field dat d key) = r"
  by (simp add: pool_createScale_def)

lemma pool_create_ok:
  "pool_ok p \<Longrightarrow> pool_ok (snd (pool_createScale build p field dat d key))"
  unfolding pool_ok_def pool_createScale_def Let_def
  by (auto split: option.splits if_splits simp: less_Suc_eq)

lemma pool_create_keeps:
  assumes "p_entries p k = Some r"
  shows "p_entries (snd (pool_createScale build p field dat d key)) k = Some r"
proof (cases "k = key")
  case True
  with assms pool_create_existing [of p key r build field dat d]
       pool_create_entry [of build p field dat d key]
  show ?thesis by simp
next
  case False
  with assms show ?thesis by (simp add: pool_create_other)
qed

lemma pool_create_fresh:
  assumes "pool_ok p" and "p_entries p key = None" and "p_entries p k = Some r"
  shows "fst (pool_createScale build p field dat d key) \<noteq> r"
  using assms unfolding pool_ok_def pool_createScale_def Let_def by auto

lemma getScaleKey_nonempty: "getScaleKey v field \<noteq> []"
  by (simp add: getScaleKey_def)

lemma defaultKey_nonempty: "defaultKey v field key \<noteq> []"
  by (simp add: defaultKey_def getScaleKey_nonempty split: option.splits)

lemma defaultKey_None: "defaultKey v field None = vid v @ ''-'' @ field"
  by (simp add: defaultKey_def getScaleKey_def)

lemma defaultKey_Some: "k \<noteq> [] \<Longrightarrow> defaultKey v field (Some k) = k"
  by (simp add: defaultKey_def)

lemma getScaleKey_inj: "vid v1 \<noteq> vid v2 \<Longrightarrow> getScaleKey v1 field \<noteq> getScaleKey v2 field"
  by (simp add: getScaleKey_def)

text \<open>Replacing the pool of the root view.\<close>

lemma root_of_set_root_pool:
  "getRootView (fst (set_root_pool this parents p)) (snd (set_root_pool this parents p))
     = (getRootView this parents)\<lparr>scalePool := p\<rparr>"
  by (induction parents arbitrary: this) simp_all

lemma set_root_pool_twice:
  "set_root_pool (fst (set_root_pool this parents p)) (snd (set_root_pool this parents p)) q
     = set_root_pool this parents q"
  by (induction parents arbitrary: this) simp_all

lemma set_root_pool_same:
  "set_root_pool this parents (scalePool (getRootView this parents)) = (this, parents)"
  by (induction parents arbitrary: this) simp_all

lemma set_root_pool_this:
  "vid (fst (set_root_pool this parents p)) = vid this"
  "voptions (fst (set_root_pool this parents p)) = voptions this"
  "filteredData (fst (set_root_pool this parents p)) = filteredData this"
  "geometries (fst (set_root_pool this parents p)) = geometries this"
  by (cases parents; simp)+

lemma set_root_pool_own_pool:
  "parents \<noteq> [] \<Longrightarrow> fst (set_root_pool this parents p) = this"
  by (cases parents) simp_all

lemma set_root_pool_length:
  "length (snd (set_root_pool this parents p)) = length parents"
  by (induction parents arbitrary: this) simp_all

lemma chain_def_set_root_pool:
  "chain_def (fst (set_root_pool this parents p)) (snd (set_root_pool this parents p)) field d
     = chain_def this parents field d"
  by (induction parents arbitrary: this d) simp_all

lemma getScaleKey_set_root_pool:
  "getScaleKey (fst (set_root_pool this parents p)) field = getScaleKey this field"
  by (simp add: getScaleKey_def set_root_pool_this)

lemma root_pool_geometries:
  "scalePool (getRootView (this\<lparr>geometries := gs\<rparr>) parents) = scalePool (getRootView this parents)"
  by (cases parents) simp_all

text \<open>
  However long the chain of parents is, \<open>createScale\<close> is one creation in the pool of the
  root view, under the key fixed by the view it was called on; no other pool and nothing
  else of the views changes.
\<close>

lemma createScale_root:
  "createScale build this parents field dat scaleDef key =
     (fst (pool_createScale build (scalePool (getRootView this parents)) field dat
             (chain_def this parents field scaleDef) (defaultKey this field key)),
      set_root_pool this parents
        (snd (pool_createScale build (scalePool (getRootView this parents)) field dat
                (chain_def this parents field scaleDef) (defaultKey this field key))))"
proof (induction parents arbitrary: this scaleDef key)
  case Nil
  show ?case by (simp add: Let_def split: prod.splits)
next
  case (Cons parent parents)
  have k: "defaultKey parent field (Some (defaultKey this field key)) = defaultKey this field key"
    by (simp add: defaultKey_def[of parent] defaultKey_nonempty)
  show ?case
    by (simp add: Let_def Cons.IH k split: prod.splits)
qed

lemma each_field_root:
  "each_field build grouped dat scales fdata flds this parents =
     set_root_pool this parents
       (pool_pass build grouped dat scales fdata this parents
          (scalePool (getRootView this parents)) flds)"
proof (induction flds arbitrary: this parents)
  case Nil
  show ?case by (simp add: pool_pass_def set_root_pool_same)
next
  case (Cons f flds)
  let ?c = "pool_createScale build (scalePool (getRootView this parents)) f
              (if f \<in> set grouped then Some dat else fdata)
              (chain_def this parents f (jget scales [f] JUndefined)) (getScaleKey this f)"
  let ?s = "set_root_pool this parents (snd ?c)"
  have "each_field build grouped dat scales fdata (f # flds) this parents
          = each_field build grouped dat scales fdata flds (fst ?s) (snd ?s)"
    by (simp add: createScale_root defaultKey_def split: prod.splits)
  also have "\<dots> = set_root_pool (fst ?s) (snd ?s)
       (pool_pass build grouped dat scales fdata (fst ?s) (snd ?s)
          (scalePool (getRootView (fst ?s) (snd ?s))) flds)"
    by (rule Cons.IH)
  also have "\<dots> = set_root_pool this parents
       (pool_pass build grouped dat scales fdata this parents (snd ?c) flds)"
    by (simp add: set_root_pool_twice root_of_set_root_pool pool_pass_def
          chain_def_set_root_pool getScaleKey_set_root_pool)
  also have "pool_pass build grouped dat scales fdata this parents (snd ?c) flds
      = pool_pass build grouped dat scales fdata this parents
          (scalePool (getRootView this parents)) (f # flds)"
    by (simp add: pool_pass_def)
  finally show ?case .
qed

lemma pool_pass_ok:
  "pool_ok p \<Longrightarrow> pool_ok (pool_pass build grouped dat scales fdata this parents p flds)"
  by (induction flds arbitrary: p) (simp_all add: pool_pass_def pool_create_ok)

lemma pool_pass_keeps:
  "p_entries p k = Some r \<Longrightarrow>
     p_entries (pool_pass build grouped dat scales fdata this parents p flds) k = Some r"
  by (induction flds arbitrary: p) (simp_all add: pool_pass_def pool_create_keeps)

lemma pool_pass_registers:
  "field \<in> set flds \<Longrightarrow>
     \<exists>r. p_entries (pool_pass build grouped dat scales fdata this parents p flds)
            (getScaleKey this field) = Some r"
proof (induction flds arbitrary: p)
  case Nil
  then show ?case by simp
next
  case (Cons f flds)
  let ?p1 = "snd (pool_createScale build p f
                     (if f \<in> set grouped then Some dat else fdata)
                     (chain_def this parents f (jget scales [f] JUndefined))
                     (getScaleKey this f))"
  have step: "pool_pass build grouped dat scales fdata this parents p (f # flds)
                = pool_pass build grouped dat scales fdata this parents ?p1 flds"
    by (simp add: pool_pass_def)
  show ?case
  proof (cases "field = f")
    case True
    have "\<exists>r. p_entries ?p1 (getScaleKey this field) = Some r"
      using pool_create_entry [of build p f _ _ "getScaleKey this f"] True
      by simp
    then show ?thesis
      using pool_pass_keeps step by metis
  next
    case False
    with Cons.prems have "field \<in> set flds" by simp
    from Cons.IH [OF this] step show ?thesis by simp
  qed
qed

lemma set_uniq_acc: "set (uniq_acc acc xs) = set acc \<union> set xs"
  by (induction xs arbitrary: acc) auto

lemma set_uniq: "set (uniq xs) = set xs"
  by (simp add: uniq_def set_uniq_acc)

lemma geometry_field:
  "g \<in> set (geometries v) \<Longrightarrow> field \<in> set (scaleFields g) \<Longrightarrow> field \<in> set (getScaleFields v)"
  by (auto simp: getScaleFields_def set_uniq)

lemma map_of_fields:
  "field \<in> set flds \<Longrightarrow> map_of (map (\<lambda>f. (f, h f)) flds) field = Some (h field)"
  by (induction flds) auto

text \<open>
  The data pass of a view, in one equation: with \<open>P\<close> the pool of the root view after the
  loop of \<open>createOrUpdateScales\<close>, the root view holds \<open>P\<close>, and every geometry of the view
  holds, for every field of the view, what \<open>P\<close> has under the key of the view and the field.
\<close>

definition pass_pool :: "scale_builder \<Rightarrow> view \<Rightarrow> view list \<Rightarrow> pool" where
  "pass_pool build this parents =
     pool_pass build (getGroupedFields this) (o_data (voptions this)) (o_scales (voptions this))
       (filteredData this) this parents (scalePool (getRootView this parents)) (getScaleFields this)"

lemma createOrUpdateScales_root:
  "createOrUpdateScales build this parents = set_root_pool this parents (pass_pool build this parents)"
  by (simp add: createOrUpdateScales_def each_field_root pass_pool_def)

lemma getGeometryScales_root:
  "getGeometryScales (fst (set_root_pool this parents p)) (snd (set_root_pool this parents p))
     = map (\<lambda>f. (f, p_entries p (getScaleKey this f))) (getScaleFields this)"
  by (simp add: getGeometryScales_def getScaleByField_def pool_getScale_def defaultKey_def
        root_of_set_root_pool getScaleKey_set_root_pool getScaleFields_def set_root_pool_this)

lemma initGeometries_eq:
  "initGeometries build this parents =
     ((fst (set_root_pool this parents (pass_pool build this parents)))
        \<lparr>geometries :=
           map (\<lambda>g. g\<lparr>g_scales := map (\<lambda>f. (f, p_entries (pass_pool build this parents)
                                                    (getScaleKey this f)))
                                     (getScaleFields this)\<rparr>)
             (geometries this)\<rparr>,
      snd (set_root_pool this parents (pass_pool build this parents)))"
  by (simp add: initGeometries_def createOrUpdateScales_root getGeometryScales_root
        set_root_pool_this case_prod_beta)

lemma initGeometries_root:
  "scalePool (getRootView (fst (initGeometries build this parents))
                 (snd (initGeometries build this parents)))
     = pass_pool build this parents"
  by (simp add: initGeometries_eq root_pool_geometries root_of_set_root_pool)

lemma initGeometries_vid:
  "vid (fst (initGeometries build this parents)) = vid this"
  by (simp add: initGeometries_eq set_root_pool_this)

lemma initGeometries_geometries:
  "geometries (fst (initGeometries build this parents)) =
     map (\<lambda>g. g\<lparr>g_scales := map (\<lambda>f. (f, p_entries (pass_pool build this parents)
                                              (getScaleKey this f)))
                               (getScaleFields this)\<rparr>)
       (geometries this)"
  by (simp add: initGeometries_eq)

lemma initGeometries_getScaleByField:
  "getScaleByField (fst (initGeometries build this parents))
       (snd (initGeometries build this parents)) field None
     = p_entries (pass_pool build this parents) (getScaleKey this field)"
  by (simp add: getScaleByField_def pool_getScale_def initGeometries_root defaultKey_def
        getScaleKey_def initGeometries_vid)

lemma pass_pool_registers:
  "field \<in> set (getScaleFields this) \<Longrightarrow>
     \<exists>r. p_entries (pass_pool build this parents) (getScaleKey this field) = Some r"
  unfolding pass_pool_def by (rule pool_pass_registers)

lemma pass_pool_keeps:
  "p_entries (scalePool (getRootView this parents)) k = Some r \<Longrightarrow>
     p_entries (pass_pool build this parents) k = Some r"
  unfolding pass_pool_def by (rule pool_pass_keeps)

lemma pass_pool_ok:
  "pool_ok (scalePool (getRootView this parents)) \<Longrightarrow> pool_ok (pass_pool build this parents)"
  unfolding pass_pool_def by (rule pool_pass_ok)

text \<open>
  C2. For every view, \<open>createScale(field, data, scaleDef)\<close> without a key registers the
  scale in the pool of the root view, and in no other pool, under the key made of the id
  of the calling view, a hyphen and the field, and \<open>getScaleByField(field)\<close> then returns
  it.  Consequently, after the data pass of a view every geometry of the view is still
  there and has been assigned, for every field it references, the scale instance that
  \<open>getScaleByField(field)\<close> returns, which is the one registered under that key: all
  geometries of the view that reference a field hold the identical instance.  When a view
  with another id of the same tree then runs its data pass, the instance it obtains and
  hands to its geometries for a field that both views reference differs from the one the
  first view obtained, which stays registered for the first view.  Two views of one tree
  that create a scale under the same explicit key obtain one instance; without a key
  they obtain two.
\<close>

theorem scale_key_sharing:
  assumes ok: "pool_ok (scalePool (getRootView v1 parents1))" and key: "k \<noteq> []"
  shows
    "(case createScale build v1 parents1 field dat scaleDef None of
        (r, v1', parents1') \<Rightarrow>
           pool_getScale (scalePool (getRootView v1' parents1')) (vid v1 @ ''-'' @ field) = Some r
         \<and> getScaleByField v1' parents1' field None = Some r
         \<and> (v1', parents1') = set_root_pool v1 parents1 (scalePool (getRootView v1' parents1'))
         \<and> (\<forall>k'. k' \<noteq> vid v1 @ ''-'' @ field \<longrightarrow>
               pool_getScale (scalePool (getRootView v1' parents1')) k'
                 = pool_getScale (scalePool (getRootView v1 parents1)) k'))
     \<and> (case initGeometries build v1 parents1 of
          (v1', parents1') \<Rightarrow>
             map scaleFields (geometries v1') = map scaleFields (geometries v1)
           \<and> (\<forall>g \<in> set (geometries v1'). \<forall>f \<in> set (scaleFields g).
                 \<exists>r. map_of (g_scales g) f = Some (Some r)
                    \<and> getScaleByField v1' parents1' f None = Some r
                    \<and> pool_getScale (scalePool (getRootView v1' parents1')) (vid v1 @ ''-'' @ f)
                        = Some r)
           \<and> (\<forall>v2 parents2.
                 vid v2 \<noteq> vid v1 \<and> getRootView v2 parents2 = getRootView v1' parents1' \<longrightarrow>
                 (case initGeometries build v2 parents2 of
                    (v2', parents2') \<Rightarrow>
                       \<forall>f. f \<in> set (getScaleFields v1) \<and> f \<in> set (getScaleFields v2) \<longrightarrow>
                         (\<exists>r1 r2. r1 \<noteq> r2
                            \<and> getScaleByField v1' parents1' f None = Some r1
                            \<and> (\<forall>g \<in> set (geometries v1').
                                  f \<in> set (scaleFields g) \<longrightarrow> map_of (g_scales g) f = Some (Some r1))
                            \<and> getScaleByField v2' parents2' f None = Some r2
                            \<and> (\<forall>g \<in> set (geometries v2').
                                  f \<in> set (scaleFields g) \<longrightarrow> map_of (g_scales g) f = Some (Some r2))
                            \<and> pool_getScale (scalePool (getRootView v2' parents2'))
                                 (vid v1 @ ''-'' @ f) = Some r1))))
     \<and> (case createScale build v1 parents1 field dat scaleDef (Some k) of
          (r1, v1', parents1') \<Rightarrow>
            \<forall>v2 parents2. getRootView v2 parents2 = getRootView v1' parents1' \<longrightarrow>
              (case createScale build v2 parents2 field dat' scaleDef' (Some k) of
                 (r2, v2', parents2') \<Rightarrow>
                    r2 = r1 \<and> getScaleByField v2' parents2' field (Some k) = Some r1))
     \<and> (case createScale build v1 parents1 field dat scaleDef None of
          (r1, v1', parents1') \<Rightarrow>
            \<forall>v2 parents2.
              vid v2 \<noteq> vid v1 \<and> getRootView v2 parents2 = getRootView v1' parents1' \<longrightarrow>
              (case createScale build v2 parents2 field dat' scaleDef' None of
                 (r2, v2', parents2') \<Rightarrow>
                    r2 \<noteq> r1 \<and> getScaleByField v2' parents2' field None = Some r2
                  \<and> pool_getScale (scalePool (getRootView v2' parents2')) (vid v1 @ ''-'' @ field)
                      = Some r1))"
proof -
  let ?P = "pass_pool build v1 parents1"
  have okP: "pool_ok ?P"
    using ok by (rule pass_pool_ok)
  have created:
    "(case createScale build v1 parents1 field dat scaleDef None of
        (r, v1', parents1') \<Rightarrow>
           pool_getScale (scalePool (getRootView v1' parents1')) (vid v1 @ ''-'' @ field) = Some r
         \<and> getScaleByField v1' parents1' field None = Some r
         \<and> (v1', parents1') = set_root_pool v1 parents1 (scalePool (getRootView v1' parents1'))
         \<and> (\<forall>k'. k' \<noteq> vid v1 @ ''-'' @ field \<longrightarrow>
               pool_getScale (scalePool (getRootView v1' parents1')) k'
                 = pool_getScale (scalePool (getRootView v1 parents1)) k'))"
    by (simp add: case_prod_beta createScale_root root_of_set_root_pool pool_getScale_def getScaleByField_def
          defaultKey_None set_root_pool_this pool_create_entry pool_create_other)
  have handed:
    "\<forall>g \<in> set (geometries (fst (initGeometries build v1 parents1))). \<forall>f \<in> set (scaleFields g).
         \<exists>r. map_of (g_scales g) f = Some (Some r)
            \<and> getScaleByField (fst (initGeometries build v1 parents1))
                 (snd (initGeometries build v1 parents1)) f None = Some r
            \<and> pool_getScale (scalePool (getRootView (fst (initGeometries build v1 parents1))
                                 (snd (initGeometries build v1 parents1)))) (vid v1 @ ''-'' @ f)
                = Some r"
  proof (intro ballI)
    fix g f
    assume g: "g \<in> set (geometries (fst (initGeometries build v1 parents1)))"
      and f: "f \<in> set (scaleFields g)"
    from g obtain g0 where g0: "g0 \<in> set (geometries v1)"
      and gg: "g = g0\<lparr>g_scales := map (\<lambda>f. (f, p_entries ?P (getScaleKey v1 f))) (getScaleFields v1)\<rparr>"
      by (auto simp: initGeometries_geometries)
    from f gg have "f \<in> set (scaleFields g0)" by simp
    with g0 have fs: "f \<in> set (getScaleFields v1)" by (rule geometry_field)
    from pass_pool_registers [OF fs] obtain r where r: "p_entries ?P (getScaleKey v1 f) = Some r"
      by blast
    have "map_of (g_scales g) f = Some (Some r)"
      using map_of_fields [OF fs, of "\<lambda>f. p_entries ?P (getScaleKey v1 f)"] r gg by simp
    moreover have "getScaleByField (fst (initGeometries build v1 parents1))
                 (snd (initGeometries build v1 parents1)) f None = Some r"
      using r by (simp add: initGeometries_getScaleByField)
    moreover have "pool_getScale (scalePool (getRootView (fst (initGeometries build v1 parents1))
                                 (snd (initGeometries build v1 parents1)))) (vid v1 @ ''-'' @ f)
                = Some r"
      using r by (simp add: initGeometries_root pool_getScale_def getScaleKey_def)
    ultimately show "\<exists>r. map_of (g_scales g) f = Some (Some r)
            \<and> getScaleByField (fst (initGeometries build v1 parents1))
                 (snd (initGeometries build v1 parents1)) f None = Some r
            \<and> pool_getScale (scalePool (getRootView (fst (initGeometries build v1 parents1))
                                 (snd (initGeometries build v1 parents1)))) (vid v1 @ ''-'' @ f)
                = Some r"
      by blast
  qed
  have kept: "map scaleFields (geometries (fst (initGeometries build v1 parents1)))
                = map scaleFields (geometries v1)"
    by (simp add: initGeometries_geometries comp_def)
  have two_views:
    "\<forall>v2 parents2.
        vid v2 \<noteq> vid v1
        \<and> getRootView v2 parents2
            = getRootView (fst (initGeometries build v1 parents1)) (snd (initGeometries build v1 parents1))
        \<longrightarrow>
        (\<forall>f. f \<in> set (getScaleFields v1) \<and> f \<in> set (getScaleFields v2) \<longrightarrow>
           (\<exists>r1 r2. r1 \<noteq> r2
              \<and> getScaleByField (fst (initGeometries build v1 parents1))
                   (snd (initGeometries build v1 parents1)) f None = Some r1
              \<and> (\<forall>g \<in> set (geometries (fst (initGeometries build v1 parents1))).
                    f \<in> set (scaleFields g) \<longrightarrow> map_of (g_scales g) f = Some (Some r1))
              \<and> getScaleByField (fst (initGeometries build v2 parents2))
                   (snd (initGeometries build v2 parents2)) f None = Some r2
              \<and> (\<forall>g \<in> set (geometries (fst (initGeometries build v2 parents2))).
                    f \<in> set (scaleFields g) \<longrightarrow> map_of (g_scales g) f = Some (Some r2))
              \<and> pool_getScale (scalePool (getRootView (fst (initGeometries build v2 parents2))
                                   (snd (initGeometries build v2 parents2))))
                   (vid v1 @ ''-'' @ f) = Some r1))"
  proof (intro allI impI)
    fix v2 parents2 f
    assume a: "vid v2 \<noteq> vid v1
        \<and> getRootView v2 parents2
            = getRootView (fst (initGeometries build v1 parents1)) (snd (initGeometries build v1 parents1))"
      and b: "f \<in> set (getScaleFields v1) \<and> f \<in> set (getScaleFields v2)"
    let ?Q = "pass_pool build v2 parents2"
    from a have root2: "scalePool (getRootView v2 parents2) = ?P"
      by (simp add: initGeometries_root)
    from b pass_pool_registers [of f v1 build parents1]
    obtain r1 where r1: "p_entries ?P (getScaleKey v1 f) = Some r1" by blast
    from b pass_pool_registers [of f v2 build parents2]
    obtain r2 where r2: "p_entries ?Q (getScaleKey v2 f) = Some r2" by blast
    from r1 root2 have r1': "p_entries ?Q (getScaleKey v1 f) = Some r1"
      by (simp add: pass_pool_keeps)
    have "pool_ok ?Q"
      using okP root2 by (simp add: pass_pool_ok)
    with r1' r2 a getScaleKey_inj [of v2 v1 f] have ne: "r1 \<noteq> r2"
      unfolding pool_ok_def by blast
    have h1: "\<forall>g \<in> set (geometries (fst (initGeometries build v1 parents1))).
                    f \<in> set (scaleFields g) \<longrightarrow> map_of (g_scales g) f = Some (Some r1)"
      using b r1 map_of_fields [of f "getScaleFields v1" "\<lambda>f. p_entries ?P (getScaleKey v1 f)"]
      by (auto simp: initGeometries_geometries)
    have h2: "\<forall>g \<in> set (geometries (fst (initGeometries build v2 parents2))).
                    f \<in> set (scaleFields g) \<longrightarrow> map_of (g_scales g) f = Some (Some r2)"
      using b r2 map_of_fields [of f "getScaleFields v2" "\<lambda>f. p_entries ?Q (getScaleKey v2 f)"]
      by (auto simp: initGeometries_geometries)
    have g1: "getScaleByField (fst (initGeometries build v1 parents1))
                   (snd (initGeometries build v1 parents1)) f None = Some r1"
      using r1 by (simp add: initGeometries_getScaleByField)
    have g2: "getScaleByField (fst (initGeometries build v2 parents2))
                   (snd (initGeometries build v2 parents2)) f None = Some r2"
      using r2 by (simp add: initGeometries_getScaleByField)
    have g3: "pool_getScale (scalePool (getRootView (fst (initGeometries build v2 parents2))
                                   (snd (initGeometries build v2 parents2))))
                   (vid v1 @ ''-'' @ f) = Some r1"
      using r1' by (simp add: initGeometries_root pool_getScale_def getScaleKey_def)
    from ne g1 h1 g2 h2 g3
    show "\<exists>r1 r2. r1 \<noteq> r2
              \<and> getScaleByField (fst (initGeometries build v1 parents1))
                   (snd (initGeometries build v1 parents1)) f None = Some r1
              \<and> (\<forall>g \<in> set (geometries (fst (initGeometries build v1 parents1))).
                    f \<in> set (scaleFields g) \<longrightarrow> map_of (g_scales g) f = Some (Some r1))
              \<and> getScaleByField (fst (initGeometries build v2 parents2))
                   (snd (initGeometries build v2 parents2)) f None = Some r2
              \<and> (\<forall>g \<in> set (geometries (fst (initGeometries build v2 parents2))).
                    f \<in> set (scaleFields g) \<longrightarrow> map_of (g_scales g) f = Some (Some r2))
              \<and> pool_getScale (scalePool (getRootView (fst (initGeometries build v2 parents2))
                                   (snd (initGeometries build v2 parents2))))
                   (vid v1 @ ''-'' @ f) = Some r1"
      by blast
  qed
  have passed:
    "(case initGeometries build v1 parents1 of
          (v1', parents1') \<Rightarrow>
             map scaleFields (geometries v1') = map scaleFields (geometries v1)
           \<and> (\<forall>g \<in> set (geometries v1'). \<forall>f \<in> set (scaleFields g).
                 \<exists>r. map_of (g_scales g) f = Some (Some r)
                    \<and> getScaleByField v1' parents1' f None = Some r
                    \<and> pool_getScale (scalePool (getRootView v1' parents1')) (vid v1 @ ''-'' @ f)
                        = Some r)
           \<and> (\<forall>v2 parents2.
                 vid v2 \<noteq> vid v1 \<and> getRootView v2 parents2 = getRootView v1' parents1' \<longrightarrow>
                 (case initGeometries build v2 parents2 of
                    (v2', parents2') \<Rightarrow>
                       \<forall>f. f \<in> set (getScaleFields v1) \<and> f \<in> set (getScaleFields v2) \<longrightarrow>
                         (\<exists>r1 r2. r1 \<noteq> r2
                            \<and> getScaleByField v1' parents1' f None = Some r1
                            \<and> (\<forall>g \<in> set (geometries v1').
                                  f \<in> set (scaleFields g) \<longrightarrow> map_of (g_scales g) f = Some (Some r1))
                            \<and> getScaleByField v2' parents2' f None = Some r2
                            \<and> (\<forall>g \<in> set (geometries v2').
                                  f \<in> set (scaleFields g) \<longrightarrow> map_of (g_scales g) f = Some (Some r2))
                            \<and> pool_getScale (scalePool (getRootView v2' parents2'))
                                 (vid v1 @ ''-'' @ f) = Some r1))))"
    unfolding case_prod_beta using kept handed two_views by blast
  have shared:
    "(case createScale build v1 parents1 field dat scaleDef (Some k) of
          (r1, v1', parents1') \<Rightarrow>
            \<forall>v2 parents2. getRootView v2 parents2 = getRootView v1' parents1' \<longrightarrow>
              (case createScale build v2 parents2 field dat' scaleDef' (Some k) of
                 (r2, v2', parents2') \<Rightarrow>
                    r2 = r1 \<and> getScaleByField v2' parents2' field (Some k) = Some r1))"
    using key
    by (simp add: case_prod_beta createScale_root root_of_set_root_pool defaultKey_Some getScaleByField_def
          pool_getScale_def pool_create_entry pool_create_existing)
  have separate:
    "(case createScale build v1 parents1 field dat scaleDef None of
          (r1, v1', parents1') \<Rightarrow>
            \<forall>v2 parents2.
              vid v2 \<noteq> vid v1 \<and> getRootView v2 parents2 = getRootView v1' parents1' \<longrightarrow>
              (case createScale build v2 parents2 field dat' scaleDef' None of
                 (r2, v2', parents2') \<Rightarrow>
                    r2 \<noteq> r1 \<and> getScaleByField v2' parents2' field None = Some r2
                  \<and> pool_getScale (scalePool (getRootView v2' parents2')) (vid v1 @ ''-'' @ field)
                      = Some r1))"
  proof -
    let ?k1 = "vid v1 @ ''-'' @ field"
    let ?X = "pool_createScale build (scalePool (getRootView v1 parents1)) field dat
                (chain_def v1 parents1 field scaleDef) ?k1"
    have ok1: "pool_ok (snd ?X)"
      using ok by (rule pool_create_ok)
    have e1: "p_entries (snd ?X) ?k1 = Some (fst ?X)"
      by (rule pool_create_entry)
    have "r2 \<noteq> fst ?X
          \<and> p_entries (snd (pool_createScale build (snd ?X) field dat' d (vid v2 @ ''-'' @ field)))
               (vid v2 @ ''-'' @ field) = Some r2
          \<and> p_entries (snd (pool_createScale build (snd ?X) field dat' d (vid v2 @ ''-'' @ field)))
               ?k1 = Some (fst ?X)"
      if ids: "vid v2 \<noteq> vid v1"
        and r2: "r2 = fst (pool_createScale build (snd ?X) field dat' d (vid v2 @ ''-'' @ field))"
      for v2 :: view and r2 d
    proof -
      let ?k2 = "vid v2 @ ''-'' @ field"
      let ?Y = "pool_createScale build (snd ?X) field dat' d ?k2"
      from ids have kk: "?k2 \<noteq> ?k1" by simp
      have e2: "p_entries (snd ?Y) ?k2 = Some r2"
        unfolding r2 by (rule pool_create_entry)
      have e1': "p_entries (snd ?Y) ?k1 = Some (fst ?X)"
        using e1 by (rule pool_create_keeps)
      have "pool_ok (snd ?Y)"
        using ok1 by (rule pool_create_ok)
      with e2 e1' kk have "r2 \<noteq> fst ?X"
        unfolding pool_ok_def by blast
      with e2 e1' show ?thesis by simp
    qed
    note step = this
    show ?thesis
      unfolding case_prod_beta
    proof (intro allI impI)
      fix v2 parents2
      assume a: "vid v2 \<noteq> vid v1
          \<and> getRootView v2 parents2
              = getRootView (fst (snd (createScale build v1 parents1 field dat scaleDef None)))
                  (snd (snd (createScale build v1 parents1 field dat scaleDef None)))"
      then have root2: "scalePool (getRootView v2 parents2) = snd ?X"
        by (simp add: createScale_root root_of_set_root_pool defaultKey_None)
      have r1: "fst (createScale build v1 parents1 field dat scaleDef None) = fst ?X"
        by (simp add: createScale_root defaultKey_None)
      from a have ids: "vid v2 \<noteq> vid v1" by simp
      from step [of v2 _ "chain_def v2 parents2 field scaleDef'", OF ids refl]
      show "fst (createScale build v2 parents2 field dat' scaleDef' None)
              \<noteq> fst (createScale build v1 parents1 field dat scaleDef None)
          \<and> getScaleByField (fst (snd (createScale build v2 parents2 field dat' scaleDef' None)))
               (snd (snd (createScale build v2 parents2 field dat' scaleDef' None))) field None
              = Some (fst (createScale build v2 parents2 field dat' scaleDef' None))
          \<and> pool_getScale (scalePool (getRootView
                 (fst (snd (createScale build v2 parents2 field dat' scaleDef' None)))
                 (snd (snd (createScale build v2 parents2 field dat' scaleDef' None)))))
               (vid v1 @ ''-'' @ field)
              = Some (fst (createScale build v1 parents1 field dat scaleDef None))"
        unfolding r1
        by (simp add: createScale_root [of build v2] root_of_set_root_pool defaultKey_None
              getScaleByField_def pool_getScale_def root2 set_root_pool_this)
    qed
  qed
  from created passed shared separate show ?thesis by blast
qed

text \<open>
  The theorem on a chart with two child views that both draw the field \<open>year\<close>: the
  first with a line over \<open>year\<close> and \<open>value\<close> and a point over \<open>year\<close> and \<open>size\<close>, the
  second with a line.  \<open>after_a\<close> is the tree after the data pass of the first child,
  \<open>after_b\<close> after the data pass of the second child that follows; \<open>keyed_a\<close> and \<open>keyed_b\<close>
  are the two children creating a scale for \<open>year\<close> under the common key \<open>year-key\<close>.
\<close>

definition plain_scale :: scale_builder where
  "plain_scale field dat scaleDef =
     \<lparr>s_field = field, s_values = None, s_isCategory = False, s_isIdentity = False,
      s_range = [Fin 0, Fin 1], s_def = scaleDef\<rparr>"

definition line_geometry :: geometry where
  "line_geometry =
     \<lparr>scaleFields = [''year'', ''value''], groupFields = [], g_scales = [],
      g_xScale = None, g_yScale = None\<rparr>"

definition point_geometry :: geometry where
  "point_geometry =
     \<lparr>scaleFields = [''year'', ''size''], groupFields = [], g_scales = [],
      g_xScale = None, g_yScale = None\<rparr>"

definition chart_root :: view where
  "chart_root = View_new ''view1'' id (JObj [])"

definition child_a :: view where
  "child_a = (View_new ''view2'' id (JObj []))\<lparr>geometries := [line_geometry, point_geometry]\<rparr>"

definition child_b :: view where
  "child_b = (View_new ''view3'' id (JObj []))\<lparr>geometries := [line_geometry]\<rparr>"

definition after_a :: "view \<times> view list" where
  "after_a = initGeometries plain_scale child_a [chart_root]"

definition after_b :: "view \<times> view list" where
  "after_b = initGeometries plain_scale child_b (snd after_a)"

definition keyed_a :: "nat \<times> view \<times> view list" where
  "keyed_a = createScale plain_scale child_a [chart_root] ''year'' None JUndefined (Some ''year-key'')"

definition keyed_b :: "nat \<times> view \<times> view list" where
  "keyed_b = createScale plain_scale child_b (snd (snd keyed_a)) ''year'' None JUndefined
               (Some ''year-key'')"

lemma child_fields:
  "getScaleFields child_a = [''year'', ''value'', ''size'']"
  "getScaleFields child_b = [''year'', ''value'']"
  by (simp_all add: getScaleFields_def child_a_def child_b_def line_geometry_def
        point_geometry_def uniq_def)

lemma child_ids: "vid child_a = ''view2''" "vid child_b = ''view3''"
  by (simp_all add: child_a_def child_b_def View_new_def)

lemma child_a_pool:
  "p_entries (pass_pool plain_scale child_a [chart_root]) ''view2-year'' = Some 0"
  "p_entries (pass_pool plain_scale child_a [chart_root]) ''view2-value'' = Some 1"
  "p_entries (pass_pool plain_scale child_a [chart_root]) ''view2-size'' = Some 2"
  "p_entries (pass_pool plain_scale child_a [chart_root]) ''view3-year'' = None"
  "p_entries (pass_pool plain_scale child_a [chart_root]) ''view3-value'' = None"
  "p_next (pass_pool plain_scale child_a [chart_root]) = 3"
  by (simp_all add: pass_pool_def pool_pass_def child_fields pool_createScale_def Let_def
        getScaleKey_def child_ids chart_root_def View_new_def empty_pool_def)

lemma after_a_state:
  "map g_scales (geometries (fst after_a))
     = [[(''year'', Some 0), (''value'', Some 1), (''size'', Some 2)],
        [(''year'', Some 0), (''value'', Some 1), (''size'', Some 2)]]"
  "map scaleFields (geometries (fst after_a)) = [[''year'', ''value''], [''year'', ''size'']]"
  "scalePool (fst after_a) = empty_pool"
  "length (snd after_a) = 1"
  by (simp_all add: after_a_def initGeometries_eq child_fields child_a_pool getScaleKey_def child_ids
        set_root_pool_length)
     (simp_all add: child_a_def View_new_def line_geometry_def point_geometry_def)

lemma after_a_root:
  "getRootView child_b (snd after_a) = getRootView (fst after_a) (snd after_a)"
  using after_a_state(4) by (cases "snd after_a") simp_all

lemma after_a_pool:
  "scalePool (getRootView (fst after_a) (snd after_a)) = pass_pool plain_scale child_a [chart_root]"
  by (simp add: after_a_def initGeometries_root)

lemma child_b_pool:
  "p_entries (pass_pool plain_scale child_b (snd after_a)) ''view3-year'' = Some 3"
  "p_entries (pass_pool plain_scale child_b (snd after_a)) ''view3-value'' = Some 4"
  "p_entries (pass_pool plain_scale child_b (snd after_a)) ''view2-year'' = Some 0"
  by (simp_all add: pass_pool_def [of plain_scale child_b] pool_pass_def child_fields
        pool_createScale_def Let_def getScaleKey_def child_ids after_a_root after_a_pool
        child_a_pool)

lemma after_b_state:
  "map g_scales (geometries (fst after_b)) = [[(''year'', Some 3), (''value'', Some 4)]]"
  "getScaleByField (fst after_b) (snd after_b) ''year'' None = Some 3"
  "pool_getScale (scalePool (getRootView (fst after_b) (snd after_b))) ''view2-year'' = Some 0"
  by (simp_all add: after_b_def initGeometries_geometries initGeometries_getScaleByField
        initGeometries_root pool_getScale_def child_fields child_b_pool getScaleKey_def child_ids)
     (simp_all add: child_b_def View_new_def line_geometry_def)

lemma keyed_a_state:
  "fst keyed_a = 0"
  "length (snd (snd keyed_a)) = 1"
  by (simp_all add: keyed_a_def createScale_root defaultKey_Some pool_createScale_def Let_def
        chart_root_def View_new_def empty_pool_def set_root_pool_length)

theorem scale_key_sharing_witness:
  "pool_ok (scalePool (getRootView child_a [chart_root]))
   \<and> map scaleFields (geometries (fst after_a)) = [[''year'', ''value''], [''year'', ''size'']]
   \<and> map g_scales (geometries (fst after_a))
       = [[(''year'', Some 0), (''value'', Some 1), (''size'', Some 2)],
          [(''year'', Some 0), (''value'', Some 1), (''size'', Some 2)]]
   \<and> getScaleByField (fst after_a) (snd after_a) ''year'' None = Some 0
   \<and> pool_getScale (scalePool (getRootView (fst after_a) (snd after_a))) ''view2-year'' = Some 0
   \<and> scalePool (fst after_a) = empty_pool
   \<and> vid child_b \<noteq> vid child_a
   \<and> getRootView child_b (snd after_a) = getRootView (fst after_a) (snd after_a)
   \<and> map g_scales (geometries (fst after_b)) = [[(''year'', Some 3), (''value'', Some 4)]]
   \<and> getScaleByField (fst after_b) (snd after_b) ''year'' None = Some 3
   \<and> getScaleByField (fst after_b) (snd after_b) ''year'' None
       \<noteq> getScaleByField (fst after_a) (snd after_a) ''year'' None
   \<and> pool_getScale (scalePool (getRootView (fst after_b) (snd after_b))) ''view2-year'' = Some 0
   \<and> getRootView child_b (snd (snd keyed_a)) = getRootView (fst (snd keyed_a)) (snd (snd keyed_a))
   \<and> fst keyed_a = 0
   \<and> fst keyed_b = 0
   \<and> getScaleByField (fst (snd keyed_b)) (snd (snd keyed_b)) ''year'' (Some ''year-key'') = Some 0"
proof -
  have ok: "pool_ok (scalePool (getRootView child_a [chart_root]))"
    by (simp add: chart_root_def View_new_def pool_ok_empty)
  have key: "''year-key'' \<noteq> []"
    by simp
  have ids: "vid child_b \<noteq> vid child_a"
    by (simp add: child_ids)
  note t = scale_key_sharing [OF ok key, where build = plain_scale and field = "''year''"
             and dat = None and scaleDef = JUndefined and dat' = None and scaleDef' = JUndefined]
  from t have handed:
    "\<forall>g \<in> set (geometries (fst after_a)). \<forall>f \<in> set (scaleFields g).
       \<exists>r. map_of (g_scales g) f = Some (Some r)
          \<and> getScaleByField (fst after_a) (snd after_a) f None = Some r
          \<and> pool_getScale (scalePool (getRootView (fst after_a) (snd after_a)))
               (vid child_a @ ''-'' @ f) = Some r"
    unfolding case_prod_beta after_a_def by blast
  have "line_geometry\<lparr>g_scales := [(''year'', Some 0), (''value'', Some 1), (''size'', Some 2)]\<rparr>
          \<in> set (geometries (fst after_a))"
    by (simp add: after_a_def initGeometries_geometries child_fields child_a_pool getScaleKey_def
          child_ids)
       (simp add: child_a_def View_new_def)
  with handed have a:
    "getScaleByField (fst after_a) (snd after_a) ''year'' None = Some 0
     \<and> pool_getScale (scalePool (getRootView (fst after_a) (snd after_a))) ''view2-year'' = Some 0"
    by (fastforce simp: line_geometry_def child_ids)
  from t have two:
    "\<forall>v2 parents2.
        vid v2 \<noteq> vid child_a
        \<and> getRootView v2 parents2 = getRootView (fst after_a) (snd after_a) \<longrightarrow>
        (\<forall>f. f \<in> set (getScaleFields child_a) \<and> f \<in> set (getScaleFields v2) \<longrightarrow>
           (\<exists>r1 r2. r1 \<noteq> r2
              \<and> getScaleByField (fst after_a) (snd after_a) f None = Some r1
              \<and> getScaleByField (fst (initGeometries plain_scale v2 parents2))
                   (snd (initGeometries plain_scale v2 parents2)) f None = Some r2))"
    unfolding case_prod_beta after_a_def by blast
  from two ids after_a_root have c:
    "getScaleByField (fst after_b) (snd after_b) ''year'' None
       \<noteq> getScaleByField (fst after_a) (snd after_a) ''year'' None"
    unfolding after_b_def by (fastforce simp: child_fields)
  from t have shared:
    "\<forall>v2 parents2.
        getRootView v2 parents2 = getRootView (fst (snd keyed_a)) (snd (snd keyed_a)) \<longrightarrow>
        fst (createScale plain_scale v2 parents2 ''year'' None JUndefined (Some ''year-key''))
          = fst keyed_a
        \<and> getScaleByField
             (fst (snd (createScale plain_scale v2 parents2 ''year'' None JUndefined (Some ''year-key''))))
             (snd (snd (createScale plain_scale v2 parents2 ''year'' None JUndefined (Some ''year-key''))))
             ''year'' (Some ''year-key'') = Some (fst keyed_a)"
    unfolding case_prod_beta keyed_a_def by blast
  have kroot: "getRootView child_b (snd (snd keyed_a)) = getRootView (fst (snd keyed_a)) (snd (snd keyed_a))"
    using keyed_a_state(2) by (cases "snd (snd keyed_a)") simp_all
  from shared kroot have b:
    "fst keyed_b = 0
     \<and> getScaleByField (fst (snd keyed_b)) (snd (snd keyed_b)) ''year'' (Some ''year-key'') = Some 0"
    unfolding keyed_b_def keyed_a_state(1) [symmetric] by blast
  from ok a b c ids after_a_state after_a_root after_b_state kroot keyed_a_state(1)
  show ?thesis by simp
qed

section \<open>The scale definition wrapper\<close>

text \<open>
  The options of a scale definition.  A key that is absent (or \<open>undefined\<close>) is \<open>None\<close>.
  A tick method is configured by name or as a function; the method handed to the
  underlying scale is one of the built-in methods, a user function, or the constant
  function of an explicit \<open>ticks\<close> array.
\<close>

type_synonym transform = "jv \<Rightarrow> jv"

type_synonym formatter = "jv \<Rightarrow> nat option \<Rightarrow> string"

datatype tick_option = TickName string | TickFunction string

datatype tick_method =
    ConstTicks "jv list"
  | UserFunction string
  | D3Ticks
  | WilkinsonExtended
  | RPretty
  | StrickCount
  | D3Log
  | D3Time

record scale_options =
  so_type :: "string option"
  so_domain :: "jv list option"
  so_min :: "jv option"
  so_max :: "jv option"
  so_transform :: "transform option"
  so_formatter :: "formatter option"
  so_compare :: "(jv \<Rightarrow> jv \<Rightarrow> real) option"
  so_mask :: "string option"
  so_ticks :: "jv list option"
  so_tickMethod :: "tick_option option"

definition no_options :: scale_options where
  "no_options =
     \<lparr>so_type = None, so_domain = None, so_min = None, so_max = None, so_transform = None,
      so_formatter = None, so_compare = None, so_mask = None, so_ticks = None,
      so_tickMethod = None\<rparr>"

text \<open>Object spread \<open>{ ...a, ...b }\<close> on options: a key of \<open>b\<close> wins over the same key of \<open>a\<close>.\<close>

definition over :: "'a option \<Rightarrow> 'a option \<Rightarrow> 'a option" where
  "over a b = (case b of None \<Rightarrow> a | Some y \<Rightarrow> Some y)"

definition merge_options :: "scale_options \<Rightarrow> scale_options \<Rightarrow> scale_options" where
  "merge_options a b =
     \<lparr>so_type = over (so_type a) (so_type b),
      so_domain = over (so_domain a) (so_domain b),
      so_min = over (so_min a) (so_min b),
      so_max = over (so_max a) (so_max b),
      so_transform = over (so_transform a) (so_transform b),
      so_formatter = over (so_formatter a) (so_formatter b),
      so_compare = over (so_compare a) (so_compare b),
      so_mask = over (so_mask a) (so_mask b),
      so_ticks = over (so_ticks a) (so_ticks b),
      so_tickMethod = over (so_tickMethod a) (so_tickMethod b)\<rparr>"

text \<open>
  What the wrapper uses of the scale library, the date library and the language: the
  construction of a scale by type name, the scale's \<open>update\<close> (with the options and the
  tick method it is handed), \<open>getOptions\<close>, whether it has a \<open>getTicks\<close> and what that
  returns, \<open>map\<close>, \<open>invert\<close>, the formatter of a time scale, \<open>new Date(string)\<close>, the
  date formatting by a mask, and the string coercion of a value.
\<close>

record 's scale_library =
  createScaleByType :: "string \<Rightarrow> 's"
  lib_update :: "'s \<Rightarrow> scale_options \<Rightarrow> tick_method \<Rightarrow> 's"
  lib_getOptions :: "'s \<Rightarrow> scale_options"
  lib_hasGetTicks :: "'s \<Rightarrow> bool"
  lib_getTicks :: "'s \<Rightarrow> jv list"
  lib_map :: "'s \<Rightarrow> jv \<Rightarrow> jv"
  lib_invert :: "'s \<Rightarrow> jv \<Rightarrow> jv"
  lib_getFormatter :: "'s \<Rightarrow> formatter"
  lib_newDate :: "string \<Rightarrow> jv"
  lib_format :: "jv \<Rightarrow> string \<Rightarrow> string"
  lib_toString :: "jv \<Rightarrow> string"

text \<open>
  The wrapper: the underlying scale (\<open>undefined\<close> until a type has been given), the
  current options, the tick values (\<open>undefined\<close> until computed) and the field.
\<close>

record 's scaleDef =
  sd_scale :: "'s option"
  sd_options :: scale_options
  sd_tickValues :: "jv list option"
  sd_field :: "string option"

definition belongTo :: "'s scaleDef \<Rightarrow> string list \<Rightarrow> bool" where
  "belongTo sd types =
     (case so_type (sd_options sd) of None \<Rightarrow> False | Some t \<Rightarrow> t \<in> set types)"

definition isContinuous :: "'s scaleDef \<Rightarrow> bool" where
  "isContinuous sd = belongTo sd [''linear'', ''log'', ''pow'', ''sqrt'', ''time'']"

definition isCategory :: "'s scaleDef \<Rightarrow> bool" where
  "isCategory sd = belongTo sd [''ordinal'', ''band'', ''point'', ''cat'', ''category'', ''timeCat'']"

definition isIdentity :: "'s scaleDef \<Rightarrow> bool" where
  "isIdentity sd = belongTo sd [''identity'']"

definition undefined_scale :: js_error where
  "undefined_scale = TypeError ''Cannot read properties of undefined''"

text \<open>\<open>getOptions\<close>: the options of the scale with the wrapper's own options over them.\<close>

definition getOptions :: "'s scale_library \<Rightarrow> 's scaleDef \<Rightarrow> js_error + scale_options" where
  "getOptions lib sd =
     (case sd_scale sd of
        None \<Rightarrow> Inl undefined_scale
      | Some s \<Rightarrow> Inr (merge_options (lib_getOptions lib s) (sd_options sd)))"

text \<open>\<open>updateScaleType\<close>: a new scale only for a given type that differs from the current one.\<close>

definition updateScaleType ::
  "'s scale_library \<Rightarrow> 's scaleDef \<Rightarrow> scale_options \<Rightarrow> 's scaleDef" where
  "updateScaleType lib sd partialOptions =
     (case so_type partialOptions of
        None \<Rightarrow> sd
      | Some t \<Rightarrow>
          if t = [] then sd
          else if Some t \<noteq> so_type (sd_options sd)
               then sd\<lparr>sd_scale := Some (createScaleByType lib t)\<rparr>
               else sd)"

text \<open>The default transform of the time types: a string becomes a date.\<close>

definition dateTransform :: "'s scale_library \<Rightarrow> transform" where
  "dateTransform lib d = (case d of JStr s \<Rightarrow> lib_newDate lib s | _ \<Rightarrow> d)"

definition getDefaultOptions :: "'s scale_library \<Rightarrow> 's scaleDef \<Rightarrow> js_error + scale_options" where
  "getDefaultOptions lib sd =
     (if belongTo sd [''time''] then
        (case sd_scale sd of
           None \<Rightarrow> Inl undefined_scale
         | Some s \<Rightarrow>
             Inr (no_options\<lparr>so_transform := Some (dateTransform lib),
                             so_formatter := Some (lib_getFormatter lib s)\<rparr>))
      else if belongTo sd [''timeCat''] then
        Inr (no_options\<lparr>so_transform := Some (dateTransform lib),
                        so_formatter :=
                          Some (case so_mask (sd_options sd) of
                                  None \<Rightarrow> (\<lambda>d i. lib_toString lib d)
                                | Some msk \<Rightarrow>
                                    if msk \<noteq> [] then (\<lambda>d i. lib_format lib d msk)
                                    else (\<lambda>d i. lib_toString lib d)),
                        so_compare := Some (\<lambda>a b. to_number a - to_number b)\<rparr>)
      else Inr (no_options\<lparr>so_transform := Some (\<lambda>d. d)\<rparr>))"

text \<open>
  \<open>updateOptions\<close>: the new options over the current ones, and the result over the
  defaults of the type.
\<close>

definition updateOptions ::
  "'s scale_library \<Rightarrow> 's scaleDef \<Rightarrow> scale_options \<Rightarrow> js_error + 's scaleDef" where
  "updateOptions lib sd partialOptions =
     (let sd1 = sd\<lparr>sd_options := merge_options (sd_options sd) partialOptions\<rparr>
      in case getDefaultOptions lib sd1 of
           Inl err \<Rightarrow> Inl err
         | Inr defaultOptions \<Rightarrow>
             Inr (sd1\<lparr>sd_options := merge_options defaultOptions (sd_options sd1)\<rparr>))"

text \<open>
  Array writes of \<open>generateDomain\<close>: \<open>a[0] = v\<close> (which gives an empty array its first
  element) and \<open>a[n] = v\<close> for \<open>n\<close> the last index as computed beforehand (which, for
  \<open>n = -1\<close>, sets a property and leaves the elements alone).
\<close>

definition set_first :: "jv list \<Rightarrow> jv \<Rightarrow> jv list" where
  "set_first xs v = (if xs = [] then [v] else xs[0 := v])"

definition set_at_last :: "nat \<Rightarrow> jv list \<Rightarrow> jv \<Rightarrow> jv list" where
  "set_at_last len xs v = (if len = 0 then xs else xs[len - 1 := v])"

text \<open>
  \<open>generateDomain\<close>.  An explicit domain is mapped into a new array.  Without one the
  array is the one \<open>getOption('domain')\<close> returns, the wrapper's own if it has one and the
  scale's otherwise; it is then written in place, so that the wrapper's own domain
  changes with it (a write to the scale's array is followed at once by the update of
  the scale with that array).  The result is the domain and the wrapper after the
  writes.  (After \<open>updateOptions\<close> a transform is always set.)
\<close>

definition generateDomain ::
  "'s scale_library \<Rightarrow> 's scaleDef \<Rightarrow> scale_options \<Rightarrow> js_error + (jv list \<times> 's scaleDef)" where
  "generateDomain lib sd partialOptions =
     (case getOptions lib sd of
        Inl err \<Rightarrow> Inl err
      | Inr opts \<Rightarrow>
          (case so_transform opts of
             None \<Rightarrow> Inl (TypeError ''transform is not a function'')
           | Some transform \<Rightarrow>
               (let override = (\<lambda>d.
                      let d1 = (case so_min partialOptions of
                                  None \<Rightarrow> d
                                | Some mn \<Rightarrow> if truthy mn then set_first d (transform mn) else d)
                      in (case so_max partialOptions of
                            None \<Rightarrow> d1
                          | Some mx \<Rightarrow>
                              if truthy mx then set_at_last (length d) d1 (transform mx) else d1))
                in case so_domain partialOptions of
                     Some d \<Rightarrow> Inr (override (map transform d), sd)
                   | None \<Rightarrow>
                       (case so_domain (sd_options sd) of
                          Some d \<Rightarrow>
                            Inr (override d,
                                 sd\<lparr>sd_options := (sd_options sd)\<lparr>so_domain := Some (override d)\<rparr>\<rparr>)
                        | None \<Rightarrow>
                            (case so_domain opts of
                               None \<Rightarrow> Inl (TypeError ''Cannot read properties of undefined'')
                             | Some d \<Rightarrow> Inr (override d, sd))))))"

definition generateTickMethod :: "'s scaleDef \<Rightarrow> tick_method" where
  "generateTickMethod sd =
     (let typeTickMethod =
            (case so_type (sd_options sd) of
               None \<Rightarrow> D3Ticks
             | Some t \<Rightarrow> if t = ''log'' then D3Log else if t = ''time'' then D3Time else D3Ticks)
      in case so_ticks (sd_options sd) of
           Some ticks \<Rightarrow> ConstTicks ticks
         | None \<Rightarrow>
             (case so_tickMethod (sd_options sd) of
                Some (TickFunction f) \<Rightarrow> UserFunction f
              | Some (TickName n) \<Rightarrow>
                  if n = ''d3-ticks'' then D3Ticks
                  else if n = ''wilkinson-extended'' then WilkinsonExtended
                  else if n = ''r-pretty'' then RPretty
                  else if n = ''strick-count'' then StrickCount
                  else if n = ''d3-log'' then D3Log
                  else if n = ''d3-time'' then D3Time
                  else typeTickMethod
              | None \<Rightarrow> typeTickMethod))"

text \<open>
  \<open>updateScaleOptions\<close>: the scale is updated with the wrapper's options, the generated
  domain and the generated tick method.
\<close>

definition updateScaleOptions ::
  "'s scale_library \<Rightarrow> 's scaleDef \<Rightarrow> scale_options \<Rightarrow> js_error + 's scaleDef" where
  "updateScaleOptions lib sd partialOptions =
     (case generateDomain lib sd partialOptions of
        Inl err \<Rightarrow> Inl err
      | Inr (resolved, sd1) \<Rightarrow>
          (case sd_scale sd1 of
             None \<Rightarrow> Inl undefined_scale
           | Some s \<Rightarrow>
               Inr (sd1\<lparr>sd_scale :=
                      Some (lib_update lib s ((sd_options sd1)\<lparr>so_domain := Some resolved\<rparr>)
                              (generateTickMethod sd1))\<rparr>)))"

text \<open>
  \<open>updateExtent\<close>, for a continuous type only: \<open>min\<close> and \<open>max\<close> become the first and
  the last entry of the domain that \<open>getOption('domain')\<close> returns (\<open>undefined\<close> for an
  empty one).
\<close>

definition updateExtent :: "'s scale_library \<Rightarrow> 's scaleDef \<Rightarrow> js_error + 's scaleDef" where
  "updateExtent lib sd =
     (if \<not> isContinuous sd then Inr sd
      else case getOptions lib sd of
             Inl err \<Rightarrow> Inl err
           | Inr opts \<Rightarrow>
               (case so_domain opts of
                  None \<Rightarrow> Inl (TypeError ''Cannot read properties of undefined'')
                | Some d \<Rightarrow>
                    Inr (sd\<lparr>sd_options := (sd_options sd)
                              \<lparr>so_max := (if d = [] then None else Some (last d)),
                               so_min := (if d = [] then None else Some (hd d))\<rparr>\<rparr>)))"

text \<open>
  \<open>updateTicks\<close>: the ticks of the scale if it has a \<open>getTicks\<close>, its domain otherwise,
  each passed through the transform.
\<close>

definition calculateTickValues :: "'s scale_library \<Rightarrow> 's \<Rightarrow> js_error + jv list" where
  "calculateTickValues lib s =
     (if lib_hasGetTicks lib s then Inr (lib_getTicks lib s)
      else case so_domain (lib_getOptions lib s) of
             None \<Rightarrow> Inl (TypeError ''Cannot read properties of undefined'')
           | Some d \<Rightarrow> Inr d)"

definition updateTicks :: "'s scale_library \<Rightarrow> 's scaleDef \<Rightarrow> js_error + 's scaleDef" where
  "updateTicks lib sd =
     (case getOptions lib sd of
        Inl err \<Rightarrow> Inl err
      | Inr opts \<Rightarrow>
          (case sd_scale sd of
             None \<Rightarrow> Inl undefined_scale
           | Some s \<Rightarrow>
               (case calculateTickValues lib s of
                  Inl err \<Rightarrow> Inl err
                | Inr tickValues \<Rightarrow>
                    (case so_transform opts of
                       None \<Rightarrow> Inl (TypeError ''transform is not a function'')
                     | Some transform \<Rightarrow>
                         Inr (sd\<lparr>sd_tickValues := Some (map transform tickValues)\<rparr>)))))"

text \<open>\<open>ScaleDef.update\<close>: the five steps, in their order.\<close>

definition update ::
  "'s scale_library \<Rightarrow> 's scaleDef \<Rightarrow> scale_options \<Rightarrow> js_error + 's scaleDef" where
  "update lib sd partialOptions =
     (case updateOptions lib (updateScaleType lib sd partialOptions) partialOptions of
        Inl err \<Rightarrow> Inl err
      | Inr sd2 \<Rightarrow>
          (case updateScaleOptions lib sd2 partialOptions of
             Inl err \<Rightarrow> Inl err
           | Inr sd3 \<Rightarrow>
               (case updateExtent lib sd3 of
                  Inl err \<Rightarrow> Inl err
                | Inr sd4 \<Rightarrow> updateTicks lib sd4)))"

text \<open>The constructor: \<open>update({ type: 'identity', ...options })\<close>, then the field.\<close>

definition ScaleDef_new ::
  "'s scale_library \<Rightarrow> scale_options \<Rightarrow> string option \<Rightarrow> js_error + 's scaleDef" where
  "ScaleDef_new lib opts field =
     (case update lib \<lparr>sd_scale = None, sd_options = no_options, sd_tickValues = None,
                       sd_field = None\<rparr>
             (merge_options (no_options\<lparr>so_type := Some ''identity''\<rparr>) opts) of
        Inl err \<Rightarrow> Inl err
      | Inr sd \<Rightarrow> Inr (sd\<lparr>sd_field := field\<rparr>))"

text \<open>\<open>getText\<close>, \<open>map\<close> and \<open>getTicks\<close>.\<close>

record tick =
  t_text :: string
  t_tickValue :: jv
  t_value :: jv

definition getText :: "'s scale_library \<Rightarrow> 's scaleDef \<Rightarrow> jv \<Rightarrow> nat option \<Rightarrow> string" where
  "getText lib sd val index =
     (case so_formatter (sd_options sd) of
        Some f \<Rightarrow> f val index
      | None \<Rightarrow> lib_toString lib val)"

definition scale_map :: "'s scale_library \<Rightarrow> 's scaleDef \<Rightarrow> jv \<Rightarrow> js_error + jv" where
  "scale_map lib sd v =
     (let transform = (case so_transform (sd_options sd) of Some t \<Rightarrow> t | None \<Rightarrow> (\<lambda>x. x))
      in case sd_scale sd of
           None \<Rightarrow> Inl undefined_scale
         | Some s \<Rightarrow> Inr (lib_map lib s (transform v)))"

definition getTicks :: "'s scale_library \<Rightarrow> 's scaleDef \<Rightarrow> js_error + tick list" where
  "getTicks lib sd =
     (case sd_tickValues sd of
        None \<Rightarrow> Inl (TypeError ''Cannot read properties of undefined'')
      | Some tickValues \<Rightarrow>
          (case sd_scale sd of
             None \<Rightarrow> Inl undefined_scale
           | Some s \<Rightarrow>
               Inr (map (\<lambda>(index, val).
                           \<lparr>t_text = getText lib sd val (Some index), t_tickValue = val,
                            t_value = lib_map lib s
                              ((case so_transform (sd_options sd) of
                                  Some t \<Rightarrow> t | None \<Rightarrow> (\<lambda>x. x)) val)\<rparr>)
                        (enumerate 0 tickValues))))"

text \<open>
  A stand-in for the scale library, for running the wrapper: a scale that keeps the
  options it is given (starting from a default domain \<open>[0, 1]\<close>), has no \<open>getTicks\<close> of its
  own, so that its ticks are its domain, and maps a value to itself.  The rendering of a
  value as a string and the parsing of a date are left open.
\<close>

definition echo_library :: "(jv \<Rightarrow> string) \<Rightarrow> (string \<Rightarrow> int) \<Rightarrow> scale_options scale_library" where
  "echo_library render parse =
     \<lparr>createScaleByType = (\<lambda>t. no_options\<lparr>so_domain := Some [JNum 0, JNum 1]\<rparr>),
      lib_update = (\<lambda>s opts tm. merge_options s opts),
      lib_getOptions = (\<lambda>s. s),
      lib_hasGetTicks = (\<lambda>s. False),
      lib_getTicks = (\<lambda>s. []),
      lib_map = (\<lambda>s v. v),
      lib_invert = (\<lambda>s v. v),
      lib_getFormatter = (\<lambda>s v i. render v),
      lib_newDate = (\<lambda>str. JDate (parse str)),
      lib_format = (\<lambda>d m. render d),
      lib_toString = render\<rparr>"

text \<open>What is read off a wrapper below: the domain its scale holds, and its own \<open>min\<close> and \<open>max\<close>.\<close>

definition domain_min_max ::
  "js_error + scale_options scaleDef \<Rightarrow> js_error + (jv list option \<times> jv option \<times> jv option)" where
  "domain_min_max r =
     (case r of
        Inl err \<Rightarrow> Inl err
      | Inr sd \<Rightarrow>
          Inr (case sd_scale sd of None \<Rightarrow> None | Some s \<Rightarrow> so_domain s,
               so_min (sd_options sd), so_max (sd_options sd)))"

definition tick_values ::
  "'s scale_library \<Rightarrow> js_error + 's scaleDef \<Rightarrow> js_error + jv list" where
  "tick_values lib r =
     (case r of
        Inl err \<Rightarrow> Inl err
      | Inr sd \<Rightarrow> (case getTicks lib sd of Inl err \<Rightarrow> Inl err | Inr ts \<Rightarrow> Inr (map t_tickValue ts)))"

definition then_update ::
  "'s scale_library \<Rightarrow> js_error + 's scaleDef \<Rightarrow> scale_options \<Rightarrow> js_error + 's scaleDef" where
  "then_update lib r partialOptions =
     (case r of Inl err \<Rightarrow> Inl err | Inr sd \<Rightarrow> update lib sd partialOptions)"

lemma over_simps:
  "over a None = a" "over a (Some y) = Some y"
  by (simp_all add: over_def)

text \<open>
  C4 at \<open>new ScaleDef({ type: 'linear', domain: [3, 10], min: 0, max: 8 })\<close>.  The claim
  resolves the domain to \<open>[0, 8]\<close> and mirrors it into \<open>min = 0\<close> and \<open>max = 8\<close>.  The
  code skips the explicit \<open>min\<close> of 0 (\<open>if (min)\<close>), so the scale gets the domain
  \<open>[3, 8]\<close>; and \<open>updateExtent\<close> reads the domain as stored in the wrapper's own options,
  so \<open>min\<close> and \<open>max\<close> become 3 and 10.
\<close>

theorem update_domain_extent_at_zero_min:
  "domain_min_max
     (ScaleDef_new (echo_library render parse)
        (no_options\<lparr>so_type := Some ''linear'', so_domain := Some [JNum 3, JNum 10],
                    so_min := Some (JNum 0), so_max := Some (JNum 8)\<rparr>) None)
   = Inr (Some [JNum 3, JNum 8], Some (JNum 3), Some (JNum 10))"
  by (simp add: domain_min_max_def ScaleDef_new_def update_def updateScaleType_def
        updateOptions_def getDefaultOptions_def belongTo_def updateScaleOptions_def
        generateDomain_def getOptions_def updateExtent_def isContinuous_def updateTicks_def
        calculateTickValues_def generateTickMethod_def merge_options_def no_options_def
        over_simps echo_library_def set_first_def set_at_last_def Let_def)

text \<open>
  C8 at the wrapper \<open>new ScaleDef({ type: 'linear', domain: [0, 10], min: 5 })\<close>.  Its
  ticks are those of the domain \<open>[5, 10]\<close>.  \<open>update({})\<close> hands the scale the domain as
  stored in the wrapper's own options, \<open>[0, 10]\<close>, and the ticks change.
\<close>

theorem update_empty_changes_ticks:
  "tick_values (echo_library render parse)
     (ScaleDef_new (echo_library render parse)
        (no_options\<lparr>so_type := Some ''linear'', so_domain := Some [JNum 0, JNum 10],
                    so_min := Some (JNum 5)\<rparr>) None)
     = Inr [JNum 5, JNum 10]
   \<and> tick_values (echo_library render parse)
       (then_update (echo_library render parse)
          (ScaleDef_new (echo_library render parse)
             (no_options\<lparr>so_type := Some ''linear'', so_domain := Some [JNum 0, JNum 10],
                         so_min := Some (JNum 5)\<rparr>) None)
          no_options)
     = Inr [JNum 0, JNum 10]"
  by (simp add: tick_values_def then_update_def getTicks_def ScaleDef_new_def update_def
        updateScaleType_def
        updateOptions_def getDefaultOptions_def belongTo_def updateScaleOptions_def
        generateDomain_def getOptions_def updateExtent_def isContinuous_def updateTicks_def
        calculateTickValues_def generateTickMethod_def merge_options_def no_options_def
        over_simps echo_library_def set_first_def set_at_last_def Let_def)

text \<open>
  Whatever the scale library is: a wrapper that has a domain among its own options and
  the identity as its transform hands that stored domain, as it is, to the scale on
  \<open>update({})\<close>.
\<close>

lemma generateDomain_of_empty_update:
  assumes "sd_scale sd = Some s" and "so_transform (sd_options sd) = Some (\<lambda>d. d)"
    and "so_domain (sd_options sd) = Some d"
  shows "generateDomain lib sd no_options = Inr (d, sd)"
proof -
  have tr: "so_transform (merge_options (lib_getOptions lib s) (sd_options sd)) = Some (\<lambda>d. d)"
    using assms by (simp add: merge_options_def over_simps)
  have same: "sd\<lparr>sd_options := (sd_options sd)\<lparr>so_domain := Some d\<rparr>\<rparr> = sd"
    using assms by simp
  show ?thesis
    using assms tr same
    by (simp add: generateDomain_def getOptions_def no_options_def Let_def)
qed

text \<open>
  The other path of the same fallback: a wrapper that stores no domain of its own reads
  the scale's resolved domain, and \<open>update({})\<close> leaves the ticks as they are.
\<close>

lemma update_empty_keeps_ticks_without_stored_domain:
  "tick_values (echo_library render parse)
     (ScaleDef_new (echo_library render parse)
        (no_options\<lparr>so_type := Some ''linear'', so_min := Some (JNum 5)\<rparr>) None)
     = Inr [JNum 5, JNum 1]
   \<and> tick_values (echo_library render parse)
       (then_update (echo_library render parse)
          (ScaleDef_new (echo_library render parse)
             (no_options\<lparr>so_type := Some ''linear'', so_min := Some (JNum 5)\<rparr>) None)
          no_options)
     = Inr [JNum 5, JNum 1]"
  by (simp add: tick_values_def then_update_def getTicks_def ScaleDef_new_def update_def
        updateScaleType_def
        updateOptions_def getDefaultOptions_def belongTo_def updateScaleOptions_def
        generateDomain_def getOptions_def updateExtent_def isContinuous_def updateTicks_def
        calculateTickValues_def generateTickMethod_def merge_options_def no_options_def
        over_simps echo_library_def set_first_def set_at_last_def Let_def)

section \<open>Child views and the options they inherit\<close>

text \<open>
  Whether two views hold the same object or two copies is a question of references, so
  here the options hold references into a store of objects.  An option is a primitive
  value (\<open>undefined\<close>, a boolean, ...) or a reference to an array or object in the store;
  what is under a reference is a tree of values.  Mutating an object, at any depth, is a
  write to the store at its address.
\<close>

datatype oval = Prim jv | Ref nat

record store =
  cells :: "nat \<rightharpoonup> jv"
  fresh :: nat

definition deref :: "store \<Rightarrow> oval \<Rightarrow> jv" where
  "deref st v =
     (case v of
        Prim p \<Rightarrow> p
      | Ref a \<Rightarrow> (case cells st a of None \<Rightarrow> JUndefined | Some obj \<Rightarrow> obj))"

definition store_write :: "store \<Rightarrow> nat \<Rightarrow> jv \<Rightarrow> store" where
  "store_write st a obj = st\<lparr>cells := (cells st)(a \<mapsto> obj)\<rparr>"

text \<open>
  The utility library's \<open>clone\<close>: a value that is not an object is returned as it is; an
  array or object is copied, at every depth, into a new object.
\<close>

definition clone :: "store \<Rightarrow> oval \<Rightarrow> oval \<times> store" where
  "clone st v =
     (case v of
        Prim p \<Rightarrow> (Prim p, st)
      | Ref a \<Rightarrow>
          (Ref (fresh st),
           st\<lparr>cells := (cells st)(fresh st \<mapsto> deref st (Ref a)), fresh := Suc (fresh st)\<rparr>))"

text \<open>
  The options that \<open>createView\<close> passes on, as the parent holds them, and the part of a
  view that \<open>createView\<close> reads: its options, the option held by its coordinate
  controller, and its visibility.
\<close>

record shared_options =
  r_data :: oval
  r_scales :: oval
  r_axes :: oval
  r_coordinate :: oval
  r_tooltip :: oval
  r_legends :: oval
  r_animate :: oval
  r_visible :: oval

record ref_view =
  rv_options :: shared_options
  rv_coordinateOption :: oval
  rv_visible :: oval

text \<open>The options of the \<open>cfg\<close> argument (\<open>get(cfg, 'options', {})\<close>): the keys it sets.\<close>

record cfg_options =
  c_data :: "oval option"
  c_scales :: "oval option"
  c_axes :: "oval option"
  c_coordinate :: "oval option"
  c_tooltip :: "oval option"
  c_legends :: "oval option"
  c_animate :: "oval option"
  c_visible :: "oval option"

definition no_cfg_options :: cfg_options where
  "no_cfg_options =
     \<lparr>c_data = None, c_scales = None, c_axes = None, c_coordinate = None, c_tooltip = None,
      c_legends = None, c_animate = None, c_visible = None\<rparr>"

definition or_else :: "oval option \<Rightarrow> oval \<Rightarrow> oval" where
  "or_else c v = (case c of None \<Rightarrow> v | Some w \<Rightarrow> w)"

text \<open>
  \<open>View.createView\<close>: the options of the child are the shared options with those of
  \<open>cfg\<close> over them; the data and the animate flag are passed as they are, the other
  shared options are clones.  The coordinate controller of the child is built from the
  child's coordinate option.  The result is the child and the store after the clones.
\<close>

definition createView :: "store \<Rightarrow> ref_view \<Rightarrow> cfg_options \<Rightarrow> oval \<Rightarrow> ref_view \<times> store" where
  "createView st this cfgOptions cfgVisible =
     (let (scales', st1) = clone st (r_scales (rv_options this));
          (axes', st2) = clone st1 (r_axes (rv_options this));
          (coordinate', st3) = clone st2 (rv_coordinateOption this);
          (tooltip', st4) = clone st3 (r_tooltip (rv_options this));
          (legends', st5) = clone st4 (r_legends (rv_options this));
          childOptions =
            \<lparr>r_data = or_else (c_data cfgOptions) (r_data (rv_options this)),
             r_scales = or_else (c_scales cfgOptions) scales',
             r_axes = or_else (c_axes cfgOptions) axes',
             r_coordinate = or_else (c_coordinate cfgOptions) coordinate',
             r_tooltip = or_else (c_tooltip cfgOptions) tooltip',
             r_legends = or_else (c_legends cfgOptions) legends',
             r_animate = or_else (c_animate cfgOptions) (r_animate (rv_options this)),
             r_visible = or_else (c_visible cfgOptions) (rv_visible this)\<rparr>
      in (\<lparr>rv_options = childOptions, rv_coordinateOption = r_coordinate childOptions,
           rv_visible = cfgVisible\<rparr>, st5))"

text \<open>
  The references of a view point below the next free address of the store, as they do
  when every object was allocated from it.
\<close>

definition below :: "store \<Rightarrow> oval \<Rightarrow> bool" where
  "below st v = (case v of Prim p \<Rightarrow> True | Ref a \<Rightarrow> a < fresh st)"

definition view_in_store :: "store \<Rightarrow> ref_view \<Rightarrow> bool" where
  "view_in_store st v \<longleftrightarrow>
     below st (r_data (rv_options v)) \<and> below st (r_scales (rv_options v))
     \<and> below st (r_axes (rv_options v)) \<and> below st (r_coordinate (rv_options v))
     \<and> below st (r_tooltip (rv_options v)) \<and> below st (r_legends (rv_options v))
     \<and> below st (rv_coordinateOption v)"

text \<open>
  An independent copy: the child's value reads as the parent's did, and no write to the
  object the child holds changes what the parent's value reads as.
\<close>

definition independent_copy :: "store \<Rightarrow> store \<Rightarrow> oval \<Rightarrow> oval \<Rightarrow> bool" where
  "independent_copy st st' parentValue childValue \<longleftrightarrow>
     deref st' childValue = deref st parentValue
     \<and> deref st' parentValue = deref st parentValue
     \<and> (\<forall>a obj. childValue = Ref a \<longrightarrow>
           deref (store_write st' a obj) parentValue = deref st parentValue)"

lemma clone_below: "below st w \<Longrightarrow> below (snd (clone st v)) w"
  by (auto simp: clone_def below_def split: oval.splits)

lemma clone_new_below: "below st v \<Longrightarrow> below (snd (clone st v)) (fst (clone st v))"
  by (auto simp: clone_def below_def split: oval.splits)

lemma clone_deref_old: "below st w \<Longrightarrow> deref (snd (clone st v)) w = deref st w"
  by (auto simp: clone_def below_def deref_def split: oval.splits)

lemma clone_copy: "below st v \<Longrightarrow> deref (snd (clone st v)) (fst (clone st v)) = deref st v"
  by (auto simp: clone_def below_def deref_def split: oval.splits)

lemma clone_address: "fst (clone st v) = Ref a \<Longrightarrow> fresh st \<le> a"
  by (auto simp: clone_def split: oval.splits)

lemma clone_fresh: "fresh st \<le> fresh (snd (clone st v))"
  by (simp add: clone_def split: oval.splits)

lemma write_old:
  "below st w \<Longrightarrow> fresh st \<le> a \<Longrightarrow> deref (store_write st' a obj) w = deref st' w"
  by (auto simp: store_write_def below_def deref_def split: oval.splits)

text \<open>
  A later store extends an earlier one when it has allocated on top of it and left what
  the earlier references read as alone.
\<close>

definition extends :: "store \<Rightarrow> store \<Rightarrow> bool" where
  "extends st0 st \<longleftrightarrow>
     fresh st0 \<le> fresh st \<and> (\<forall>w. below st0 w \<longrightarrow> deref st w = deref st0 w)"

lemma extends_refl: "extends st st"
  by (simp add: extends_def)

lemma below_mono: "fresh st0 \<le> fresh st \<Longrightarrow> below st0 w \<Longrightarrow> below st w"
  by (auto simp: below_def split: oval.splits)

lemma extends_trans: "extends a b \<Longrightarrow> extends b c \<Longrightarrow> extends a c"
  unfolding extends_def using below_mono by (metis order_trans)

lemma extends_clone: "extends st (snd (clone st v))"
  by (simp add: extends_def clone_fresh clone_deref_old)

lemma clone_stage:
  assumes e: "extends st0 st" and v: "below st0 v" and e': "extends (snd (clone st v)) st'"
  shows "independent_copy st0 st' v (fst (clone st v))"
proof -
  let ?c = "fst (clone st v)" and ?st1 = "snd (clone st v)"
  from e v have v': "below st v"
    by (auto simp: extends_def below_mono)
  have c1: "below ?st1 ?c"
    using v' by (rule clone_new_below)
  from e' c1 have "deref st' ?c = deref ?st1 ?c"
    by (simp add: extends_def)
  also have "\<dots> = deref st v"
    using v' by (rule clone_copy)
  also from e v have "\<dots> = deref st0 v"
    by (simp add: extends_def)
  finally have copy: "deref st' ?c = deref st0 v" .
  have all: "extends st0 st'"
    using e extends_clone [of st v] e' by (blast intro: extends_trans)
  with v have keep: "deref st' v = deref st0 v"
    by (simp add: extends_def)
  have indep: "\<forall>a obj. ?c = Ref a \<longrightarrow> deref (store_write st' a obj) v = deref st0 v"
  proof (intro allI impI)
    fix a obj
    assume "?c = Ref a"
    then have "fresh st \<le> a"
      by (rule clone_address)
    with e have "fresh st0 \<le> a"
      by (simp add: extends_def)
    from write_old [OF v this] keep show "deref (store_write st' a obj) v = deref st0 v"
      by simp
  qed
  from copy keep indep show ?thesis
    by (simp add: independent_copy_def)
qed

text \<open>
  C5, as stated, makes the child's data an independent copy as well.  \<open>createView\<close>
  passes \<open>this.options.data\<close> on as it is: parent and child hold one array, and a write
  to it through the child is seen through the parent.
\<close>

definition parent_store :: store where
  "parent_store =
     \<lparr>cells = [0 \<mapsto> JArr [JObj [(''year'', JStr ''1991''), (''value'', JNum 13)]],
               1 \<mapsto> JObj [(''value'', JObj [(''min'', JNum 0)])]],
      fresh = 2\<rparr>"

definition parent_view :: ref_view where
  "parent_view =
     \<lparr>rv_options =
        \<lparr>r_data = Ref 0, r_scales = Ref 1, r_axes = Prim JUndefined,
         r_coordinate = Prim JUndefined, r_tooltip = Prim (JBool False),
         r_legends = Prim JUndefined, r_animate = Prim (JBool True),
         r_visible = Prim JUndefined\<rparr>,
      rv_coordinateOption = Prim JUndefined, rv_visible = Prim (JBool True)\<rparr>"

lemma parent_view_in_store: "view_in_store parent_store parent_view"
  by (simp add: view_in_store_def below_def parent_store_def parent_view_def)

lemma createView_parent:
  "createView parent_store parent_view no_cfg_options (Prim JUndefined) =
     (\<lparr>rv_options =
         \<lparr>r_data = Ref 0, r_scales = Ref 2, r_axes = Prim JUndefined,
          r_coordinate = Prim JUndefined, r_tooltip = Prim (JBool False),
          r_legends = Prim JUndefined, r_animate = Prim (JBool True),
          r_visible = Prim (JBool True)\<rparr>,
       rv_coordinateOption = Prim JUndefined, rv_visible = Prim JUndefined\<rparr>,
      \<lparr>cells = [0 \<mapsto> JArr [JObj [(''year'', JStr ''1991''), (''value'', JNum 13)]],
                1 \<mapsto> JObj [(''value'', JObj [(''min'', JNum 0)])],
                2 \<mapsto> JObj [(''value'', JObj [(''min'', JNum 0)])]],
       fresh = 3\<rparr>)"
  by (simp add: createView_def clone_def deref_def parent_store_def parent_view_def
        no_cfg_options_def or_else_def)

theorem createView_data_counterexample:
  "r_data (rv_options (fst (createView parent_store parent_view no_cfg_options (Prim JUndefined))))
     = Ref 0
   \<and> r_data (rv_options parent_view) = Ref 0
   \<and> deref (snd (createView parent_store parent_view no_cfg_options (Prim JUndefined)))
        (r_data (rv_options parent_view))
     = JArr [JObj [(''year'', JStr ''1991''), (''value'', JNum 13)]]
   \<and> deref (store_write (snd (createView parent_store parent_view no_cfg_options (Prim JUndefined)))
               0 (JArr []))
        (r_data (rv_options parent_view))
     = JArr []
   \<and> \<not> independent_copy parent_store
         (snd (createView parent_store parent_view no_cfg_options (Prim JUndefined)))
         (r_data (rv_options parent_view))
         (r_data (rv_options (fst (createView parent_store parent_view no_cfg_options
                                     (Prim JUndefined)))))"
proof -
  have a: "deref (store_write \<lparr>cells = [0 \<mapsto> JArr [JObj [(''year'', JStr ''1991''), (''value'', JNum 13)]],
                1 \<mapsto> JObj [(''value'', JObj [(''min'', JNum 0)])],
                2 \<mapsto> JObj [(''value'', JObj [(''min'', JNum 0)])]],
       fresh = 3\<rparr> 0 (JArr [])) (Ref 0) = JArr []"
    by (simp add: deref_def store_write_def)
  have b: "deref parent_store (Ref 0) = JArr [JObj [(''year'', JStr ''1991''), (''value'', JNum 13)]]"
    by (simp add: deref_def parent_store_def)
  have d: "r_data (rv_options parent_view) = Ref 0"
    by (simp add: parent_view_def)
  have c: "\<not> independent_copy parent_store
         \<lparr>cells = [0 \<mapsto> JArr [JObj [(''year'', JStr ''1991''), (''value'', JNum 13)]],
                1 \<mapsto> JObj [(''value'', JObj [(''min'', JNum 0)])],
                2 \<mapsto> JObj [(''value'', JObj [(''min'', JNum 0)])]],
       fresh = 3\<rparr> (Ref 0) (Ref 0)"
  proof
    assume "independent_copy parent_store
         \<lparr>cells = [0 \<mapsto> JArr [JObj [(''year'', JStr ''1991''), (''value'', JNum 13)]],
                1 \<mapsto> JObj [(''value'', JObj [(''min'', JNum 0)])],
                2 \<mapsto> JObj [(''value'', JObj [(''min'', JNum 0)])]],
       fresh = 3\<rparr> (Ref 0) (Ref 0)"
    then have "deref (store_write \<lparr>cells = [0 \<mapsto> JArr [JObj [(''year'', JStr ''1991''), (''value'', JNum 13)]],
                1 \<mapsto> JObj [(''value'', JObj [(''min'', JNum 0)])],
                2 \<mapsto> JObj [(''value'', JObj [(''min'', JNum 0)])]],
       fresh = 3\<rparr> 0 (JArr [])) (Ref 0) = deref parent_store (Ref 0)"
      unfolding independent_copy_def by blast
    with a b show False
      by simp
  qed
  have e: "deref \<lparr>cells = [0 \<mapsto> JArr [JObj [(''year'', JStr ''1991''), (''value'', JNum 13)]],
                1 \<mapsto> JObj [(''value'', JObj [(''min'', JNum 0)])],
                2 \<mapsto> JObj [(''value'', JObj [(''min'', JNum 0)])]],
       fresh = 3\<rparr> (Ref 0) = JArr [JObj [(''year'', JStr ''1991''), (''value'', JNum 13)]]"
    by (simp add: deref_def)
  show ?thesis
    unfolding createView_parent d fst_conv snd_conv ref_view.simps shared_options.simps
    using a c e by blast
qed

text \<open>
  C5, amended.  A child view created by \<open>createView()\<close> receives, for every key that
  \<open>cfg.options\<close> does not set: the parent's data as the very array the parent holds
  (shared, not copied); the parent's animate flag, a boolean, by value; and the parent's
  scales, axes, coordinate descriptor (as held by the coordinate controller), tooltip
  and legends as independent cloned copies: each reads as the parent's at creation, and
  no later write to the child's copy changes what the parent's reads as.  Creating the
  child changes nothing that existed before.
\<close>

theorem createView_shares_data_clones_rest:
  assumes "view_in_store st this"
  shows
    "(c_data cfgOptions = None \<longrightarrow>
        r_data (rv_options (fst (createView st this cfgOptions cfgVisible)))
          = r_data (rv_options this))
     \<and> (c_animate cfgOptions = None \<longrightarrow>
        r_animate (rv_options (fst (createView st this cfgOptions cfgVisible)))
          = r_animate (rv_options this))
     \<and> (c_scales cfgOptions = None \<longrightarrow>
        independent_copy st (snd (createView st this cfgOptions cfgVisible))
          (r_scales (rv_options this))
          (r_scales (rv_options (fst (createView st this cfgOptions cfgVisible)))))
     \<and> (c_axes cfgOptions = None \<longrightarrow>
        independent_copy st (snd (createView st this cfgOptions cfgVisible))
          (r_axes (rv_options this))
          (r_axes (rv_options (fst (createView st this cfgOptions cfgVisible)))))
     \<and> (c_coordinate cfgOptions = None \<longrightarrow>
        independent_copy st (snd (createView st this cfgOptions cfgVisible))
          (rv_coordinateOption this)
          (r_coordinate (rv_options (fst (createView st this cfgOptions cfgVisible)))))
     \<and> (c_tooltip cfgOptions = None \<longrightarrow>
        independent_copy st (snd (createView st this cfgOptions cfgVisible))
          (r_tooltip (rv_options this))
          (r_tooltip (rv_options (fst (createView st this cfgOptions cfgVisible)))))
     \<and> (c_legends cfgOptions = None \<longrightarrow>
        independent_copy st (snd (createView st this cfgOptions cfgVisible))
          (r_legends (rv_options this))
          (r_legends (rv_options (fst (createView st this cfgOptions cfgVisible)))))
     \<and> extends st (snd (createView st this cfgOptions cfgVisible))"
proof -
  define st1 where "st1 = snd (clone st (r_scales (rv_options this)))"
  define st2 where "st2 = snd (clone st1 (r_axes (rv_options this)))"
  define st3 where "st3 = snd (clone st2 (rv_coordinateOption this))"
  define st4 where "st4 = snd (clone st3 (r_tooltip (rv_options this)))"
  define st5 where "st5 = snd (clone st4 (r_legends (rv_options this)))"
  have final: "snd (createView st this cfgOptions cfgVisible) = st5"
    by (simp add: createView_def Let_def split_beta st1_def st2_def st3_def st4_def st5_def)
  have child:
    "rv_options (fst (createView st this cfgOptions cfgVisible)) =
       \<lparr>r_data = or_else (c_data cfgOptions) (r_data (rv_options this)),
        r_scales = or_else (c_scales cfgOptions) (fst (clone st (r_scales (rv_options this)))),
        r_axes = or_else (c_axes cfgOptions) (fst (clone st1 (r_axes (rv_options this)))),
        r_coordinate = or_else (c_coordinate cfgOptions) (fst (clone st2 (rv_coordinateOption this))),
        r_tooltip = or_else (c_tooltip cfgOptions) (fst (clone st3 (r_tooltip (rv_options this)))),
        r_legends = or_else (c_legends cfgOptions) (fst (clone st4 (r_legends (rv_options this)))),
        r_animate = or_else (c_animate cfgOptions) (r_animate (rv_options this)),
        r_visible = or_else (c_visible cfgOptions) (rv_visible this)\<rparr>"
    by (simp add: createView_def Let_def split_beta st1_def st2_def st3_def st4_def)
  have e01: "extends st st1" and e12: "extends st1 st2" and e23: "extends st2 st3"
    and e34: "extends st3 st4" and e45: "extends st4 st5"
    by (simp_all add: st1_def st2_def st3_def st4_def st5_def extends_clone)
  have e02: "extends st st2" using e01 e12 by (rule extends_trans)
  have e03: "extends st st3" using e02 e23 by (rule extends_trans)
  have e04: "extends st st4" using e03 e34 by (rule extends_trans)
  have e05: "extends st st5" using e04 e45 by (rule extends_trans)
  have e35: "extends st3 st5" using e34 e45 by (rule extends_trans)
  have e25: "extends st2 st5" using e23 e35 by (rule extends_trans)
  have e15: "extends st1 st5" using e12 e25 by (rule extends_trans)
  from assms have b:
    "below st (r_scales (rv_options this))" "below st (r_axes (rv_options this))"
    "below st (rv_coordinateOption this)" "below st (r_tooltip (rv_options this))"
    "below st (r_legends (rv_options this))"
    by (simp_all add: view_in_store_def)
  have scales: "independent_copy st st5 (r_scales (rv_options this))
                  (fst (clone st (r_scales (rv_options this))))"
    using extends_refl b(1) e15 [unfolded st1_def] by (rule clone_stage)
  have axes: "independent_copy st st5 (r_axes (rv_options this))
                  (fst (clone st1 (r_axes (rv_options this))))"
    using e01 b(2) e25 [unfolded st2_def] by (rule clone_stage)
  have coordinate: "independent_copy st st5 (rv_coordinateOption this)
                  (fst (clone st2 (rv_coordinateOption this)))"
    using e02 b(3) e35 [unfolded st3_def] by (rule clone_stage)
  have tooltip: "independent_copy st st5 (r_tooltip (rv_options this))
                  (fst (clone st3 (r_tooltip (rv_options this))))"
    using e03 b(4) e45 [unfolded st4_def] by (rule clone_stage)
  have legends: "independent_copy st st5 (r_legends (rv_options this))
                  (fst (clone st4 (r_legends (rv_options this))))"
    using e04 b(5) extends_refl [of st5, unfolded st5_def] unfolding st5_def by (rule clone_stage)
  show ?thesis
    unfolding final child
    using scales axes coordinate tooltip legends e05
    by (simp add: or_else_def)
qed

theorem createView_shares_data_clones_rest_witness:
  "r_data (rv_options (fst (createView parent_store parent_view no_cfg_options (Prim JUndefined))))
     = Ref 0
   \<and> r_scales (rv_options (fst (createView parent_store parent_view no_cfg_options (Prim JUndefined))))
     = Ref 2
   \<and> deref (snd (createView parent_store parent_view no_cfg_options (Prim JUndefined))) (Ref 2)
     = JObj [(''value'', JObj [(''min'', JNum 0)])]
   \<and> deref (store_write (snd (createView parent_store parent_view no_cfg_options (Prim JUndefined)))
               2 (JObj [(''value'', JObj [(''min'', JNum 5)])]))
        (r_scales (rv_options parent_view))
     = JObj [(''value'', JObj [(''min'', JNum 0)])]"
proof -
  note t = createView_shares_data_clones_rest [OF parent_view_in_store,
             of no_cfg_options "Prim JUndefined"]
  have n: "c_data no_cfg_options = None" "c_scales no_cfg_options = None"
    by (simp_all add: no_cfg_options_def)
  have ps: "r_scales (rv_options parent_view) = Ref 1" "r_data (rv_options parent_view) = Ref 0"
    by (simp_all add: parent_view_def)
  have p1: "deref parent_store (Ref 1) = JObj [(''value'', JObj [(''min'', JNum 0)])]"
    by (simp add: deref_def parent_store_def)
  have cs: "r_scales (rv_options (fst (createView parent_store parent_view no_cfg_options
                                         (Prim JUndefined)))) = Ref 2"
    by (simp add: createView_parent)
  from t n have a: "r_data (rv_options (fst (createView parent_store parent_view no_cfg_options
                                         (Prim JUndefined)))) = Ref 0"
    by (simp add: ps)
  from t n have ic: "independent_copy parent_store
          (snd (createView parent_store parent_view no_cfg_options (Prim JUndefined)))
          (Ref 1) (Ref 2)"
    by (simp add: ps cs)
  from ic p1 have c: "deref (snd (createView parent_store parent_view no_cfg_options (Prim JUndefined)))
                        (Ref 2) = JObj [(''value'', JObj [(''min'', JNum 0)])]"
    by (simp add: independent_copy_def)
  from ic p1 have d: "deref (store_write (snd (createView parent_store parent_view no_cfg_options
                                                (Prim JUndefined)))
               2 (JObj [(''value'', JObj [(''min'', JNum 5)])])) (Ref 1)
     = JObj [(''value'', JObj [(''min'', JNum 0)])]"
    by (simp add: independent_copy_def)
  from a cs c d show ?thesis
    by (simp add: ps)
qed

end
